theory Spec2Isabelle
  imports Complex_Main "HOL-Library.Word"
begin

section \<open>JavaScript values\<close>

text \<open>
  A JavaScript string is a sequence of 16-bit code units. The literals of \<open>script.js\<close>
  that are plain ASCII are written \<open>js ''...''\<close>; the glyph literals are given by the code
  units the source file holds.

  A JavaScript number is a double, modelled as the \<open>real\<close> it denotes; a value that may
  be \<open>undefined\<close> (a missing property, an array read out of range) or \<open>NaN\<close> (its image
  under \<open>Math.round\<close>) is an \<open>option\<close>, \<open>None\<close> standing for \<open>undefined\<close>/\<open>NaN\<close>.

  The result of \<open>+\<close>, \<open>-\<close>, \<open>*\<close> or \<open>/\<close> is the double nearest to the exact result. The
  model takes this rounding as a function \<open>fl\<close> of the host and writes it at every such
  operation, and at every decimal literal that is not a double itself (\<open>0.2\<close>; the
  literals \<open>0.5\<close>, \<open>22.5\<close> and the integers are doubles). \<open>Math.round\<close> and \<open>%\<close> are
  exact on the values they get here. Rounding to nearest has the three properties below
  on the finite range: the error is at most half a unit in the last place (or half the
  smallest subnormal), it is monotone, and it leaves the integers up to \<open>2^53\<close> as they
  are. The theorems that depend on arithmetic hold for every \<open>fl\<close> with these properties.
\<close>

definition rounds_to_nearest :: "(real \<Rightarrow> real) \<Rightarrow> bool" where
  "rounds_to_nearest fl \<longleftrightarrow>
     (\<forall>x. \<bar>x\<bar> \<le> 2 ^ 1023 \<longrightarrow> \<bar>fl x - x\<bar> \<le> \<bar>x\<bar> / 2 ^ 53 + 1 / 2 ^ 1075)
   \<and> (\<forall>x y. x \<le> y \<longrightarrow> fl x \<le> fl y)
   \<and> (\<forall>n::int. \<bar>n\<bar> \<le> 2 ^ 53 \<longrightarrow> fl (of_int n) = of_int n)"

type_synonym js_string = "16 word list"

definition js :: "string \<Rightarrow> js_string" where
  "js s = map (\<lambda>c. of_nat (of_char c)) s"

text \<open>\<open>String.prototype.trim\<close>: strips WhiteSpace and LineTerminator code units at both ends.\<close>

definition white_space :: "16 word list" where
  "white_space =
     [0x0009, 0x000A, 0x000B, 0x000C, 0x000D, 0x0020, 0x00A0, 0x1680,
      0x2000, 0x2001, 0x2002, 0x2003, 0x2004, 0x2005, 0x2006, 0x2007, 0x2008, 0x2009, 0x200A,
      0x2028, 0x2029, 0x202F, 0x205F, 0x3000, 0xFEFF]"

definition is_white_space :: "16 word \<Rightarrow> bool" where
  "is_white_space c = (c \<in> set white_space)"

definition trim :: "js_string \<Rightarrow> js_string" where
  "trim s = rev (dropWhile is_white_space (rev (dropWhile is_white_space s)))"

text \<open>\<open>String.prototype.includes\<close>: the needle occurs as a contiguous run of code units.\<close>

fun starts_with :: "js_string \<Rightarrow> js_string \<Rightarrow> bool" where
  "starts_with s [] = True"
| "starts_with [] (d # ds) = False"
| "starts_with (c # cs) (d # ds) = (c = d \<and> starts_with cs ds)"

fun js_includes :: "js_string \<Rightarrow> js_string \<Rightarrow> bool" where
  "js_includes [] needle = (needle = [])"
| "js_includes (c # cs) needle = (starts_with (c # cs) needle \<or> js_includes cs needle)"

text \<open>
  \<open>encodeURIComponent\<close> throws a URIError on a string with a lone surrogate; otherwise it
  is an injective encoding, and the model keeps the string itself as the request parameter.
\<close>

definition high_surrogate :: "16 word \<Rightarrow> bool" where
  "high_surrogate c = (0xD800 \<le> c \<and> c \<le> 0xDBFF)"

definition low_surrogate :: "16 word \<Rightarrow> bool" where
  "low_surrogate c = (0xDC00 \<le> c \<and> c \<le> 0xDFFF)"

fun well_formed :: "js_string \<Rightarrow> bool" where
  "well_formed [] = True"
| "well_formed [c] = (\<not> high_surrogate c \<and> \<not> low_surrogate c)"
| "well_formed (c # d # cs) =
     (if high_surrogate c then low_surrogate d \<and> well_formed cs
      else \<not> low_surrogate c \<and> well_formed (d # cs))"

text \<open>\<open>Math.round\<close>: the nearest integer, a tie going towards plus infinity.\<close>

definition js_round :: "real \<Rightarrow> int" where
  "js_round x = \<lfloor>x + 1 / 2\<rfloor>"

text \<open>
  The remainder operator \<open>%\<close> on integral values: the result has the sign of the dividend.
  The divisor is never zero in this program.
\<close>

definition js_rem :: "int \<Rightarrow> int \<Rightarrow> int" where
  "js_rem a b = sgn a * (\<bar>a\<bar> mod \<bar>b\<bar>)"

text \<open>An array read \<open>xs[i]\<close>: \<open>undefined\<close> out of range, never an exception.\<close>

definition js_nth :: "'a list \<Rightarrow> int \<Rightarrow> 'a option" where
  "js_nth xs i = (if 0 \<le> i \<and> nat i < length xs then Some (xs ! nat i) else None)"

section \<open>Helper functions of the script\<close>

subsection \<open>\<open>getWindDirection\<close>\<close>

definition directions :: "js_string list" where
  "directions =
     [js ''N'', js ''NNE'', js ''NE'', js ''ENE'', js ''E'', js ''ESE'', js ''SE'', js ''SSE'',
      js ''S'', js ''SSW'', js ''SW'', js ''WSW'', js ''W'', js ''WNW'', js ''NW'', js ''NNW'']"

text \<open>
  \<open>Math.round(undefined)\<close> is \<open>NaN\<close>, \<open>NaN % 16\<close> is \<open>NaN\<close>, and \<open>directions[NaN]\<close> is
  \<open>undefined\<close>; so is \<open>directions[index]\<close> for a negative index.
\<close>

fun getWindDirection :: "(real \<Rightarrow> real) \<Rightarrow> real option \<Rightarrow> js_string option" where
  "getWindDirection fl None = None"
| "getWindDirection fl (Some degrees) =
     (let index = js_rem (js_round (fl (degrees / 22.5))) 16 in js_nth directions index)"

subsection \<open>\<open>getWeatherInfo\<close>\<close>

record weather_info =
  description :: js_string
  icon :: js_string

definition icon_sun :: js_string where
  "icon_sun = [0x00E2, 0x02DC, 0x20AC, 0x00EF, 0x00B8]"

definition icon_sun_small_cloud :: js_string where
  "icon_sun_small_cloud = [0x011F, 0x0178, 0x0152, 0x00A4, 0x00EF, 0x00B8]"

definition icon_sun_behind_cloud :: js_string where
  "icon_sun_behind_cloud = [0x00E2, 0x203A, 0x2026]"

definition icon_cloud :: js_string where
  "icon_cloud = [0x00E2, 0x02DC, 0x00EF, 0x00B8]"

definition icon_fog :: js_string where
  "icon_fog = [0x011F, 0x0178, 0x0152, 0x00AB, 0x00EF, 0x00B8]"

definition icon_sun_rain_cloud :: js_string where
  "icon_sun_rain_cloud = [0x011F, 0x0178, 0x0152, 0x00A6, 0x00EF, 0x00B8]"

definition icon_rain_cloud :: js_string where
  "icon_rain_cloud = [0x011F, 0x0178, 0x0152, 0x00A7, 0x00EF, 0x00B8]"

definition icon_thunder_cloud :: js_string where
  "icon_thunder_cloud = [0x00E2, 0x203A, 0x02C6, 0x00EF, 0x00B8]"

definition icon_unknown :: js_string where
  "icon_unknown = [0x00E2, 0x201C]"

text \<open>The object literal \<open>weatherMap\<close>, its integer keys in source order.\<close>

definition weatherMap :: "(int \<times> weather_info) list" where
  "weatherMap =
     [(0, \<lparr>description = js ''Clear sky'', icon = icon_sun\<rparr>),
      (1, \<lparr>description = js ''Mainly clear'', icon = icon_sun_small_cloud\<rparr>),
      (2, \<lparr>description = js ''Partly cloudy'', icon = icon_sun_behind_cloud\<rparr>),
      (3, \<lparr>description = js ''Overcast'', icon = icon_cloud\<rparr>),
      (45, \<lparr>description = js ''Fog'', icon = icon_fog\<rparr>),
      (48, \<lparr>description = js ''Depositing rime fog'', icon = icon_fog\<rparr>),
      (51, \<lparr>description = js ''Light drizzle'', icon = icon_sun_rain_cloud\<rparr>),
      (53, \<lparr>description = js ''Moderate drizzle'', icon = icon_sun_rain_cloud\<rparr>),
      (55, \<lparr>description = js ''Dense drizzle'', icon = icon_sun_rain_cloud\<rparr>),
      (61, \<lparr>description = js ''Slight rain'', icon = icon_rain_cloud\<rparr>),
      (63, \<lparr>description = js ''Moderate rain'', icon = icon_rain_cloud\<rparr>),
      (65, \<lparr>description = js ''Heavy rain'', icon = icon_thunder_cloud\<rparr>),
      (80, \<lparr>description = js ''Slight rain showers'', icon = icon_sun_rain_cloud\<rparr>),
      (81, \<lparr>description = js ''Moderate rain showers'', icon = icon_rain_cloud\<rparr>),
      (82, \<lparr>description = js ''Violent rain showers'', icon = icon_thunder_cloud\<rparr>),
      (95, \<lparr>description = js ''Thunderstorm'', icon = icon_thunder_cloud\<rparr>),
      (96, \<lparr>description = js ''Thunderstorm with hail'', icon = icon_thunder_cloud\<rparr>)]"

text \<open>
  \<open>weatherMap[code] || {...}\<close>: every entry of the table is an object, hence truthy, so the
  right operand is taken exactly when the key is absent. The code is an integer of the
  provider, or \<open>undefined\<close>, whose key \<open>"undefined"\<close> is not in the table.
\<close>

fun getWeatherInfo :: "int option \<Rightarrow> weather_info" where
  "getWeatherInfo None = \<lparr>description = js ''Unknown'', icon = icon_unknown\<rparr>"
| "getWeatherInfo (Some code) =
     (case map_of weatherMap code of
        Some info \<Rightarrow> info
      | None \<Rightarrow> \<lparr>description = js ''Unknown'', icon = icon_unknown\<rparr>)"

section \<open>Provider responses, the page and the program state\<close>

text \<open>
  One entry of the geocoding provider's \<open>results\<close> array. The coordinates are always
  present; \<open>name\<close> and \<open>country\<close> may be missing, which is why the script reads them
  with \<open>?.\<close> and \<open>||\<close>.
\<close>

record geo_result =
  latitude :: real
  longitude :: real
  name :: "js_string option"
  country :: "js_string option"

record geo_data =
  results :: "geo_result list option"

record current_weather =
  temperature_2m :: "real option"
  relative_humidity_2m :: "real option"
  apparent_temperature :: "real option"
  weather_code :: "int option"
  wind_speed_10m :: "real option"
  wind_direction_10m :: "real option"

text \<open>The \<open>daily\<close> block: parallel arrays indexed by day offset, each possibly missing.\<close>

record daily_weather =
  time :: "js_string list option"
  daily_weather_code :: "int list option"
  temperature_2m_max :: "real list option"
  temperature_2m_min :: "real list option"
  precipitation_sum :: "real list option"
  wind_speed_10m_max :: "real list option"

record weather_data =
  current :: "current_weather option"
  daily :: "daily_weather option"

datatype geo_query = ByName js_string | ByCoordinate real real

datatype request = GeocodingRequest geo_query | WeatherRequest real real

text \<open>
  The world outside the script: what the two endpoints answer (\<open>None\<close> when \<open>fetch\<close> or
  \<open>response.json()\<close> rejects), the value returned by the \<open>n\<close>-th call of
  \<open>Math.random\<close>, and the host's rounding of an exact result to a double.
\<close>

record env =
  geocoding :: "geo_query \<Rightarrow> geo_data option"
  weather :: "real \<Rightarrow> real \<Rightarrow> weather_data option"
  random :: "nat \<Rightarrow> real"
  to_double :: "real \<Rightarrow> real"

text \<open>What \<open>navigator.geolocation\<close> does when asked for the position.\<close>

datatype geolocation = Unsupported | PositionError js_string | Position real real

text \<open>
  The template of \<open>displayCurrentWeather\<close>, as the values it interpolates, and the card
  template of \<open>displayForecast\<close>. The day name and the day/month line of a card are
  computed by the host's \<open>Date\<close> from \<open>daily.time[i]\<close>, which the card keeps as it is.
\<close>

record summary =
  summary_cityName :: "js_string option"
  summary_country :: "js_string option"
  summary_temp :: "int option"
  summary_weatherInfo :: weather_info
  summary_feelsLike :: "int option"
  summary_humidity :: "real option"
  summary_windSpeed :: "real option"
  summary_windDeg :: "real option"
  summary_windDirection :: "js_string option"

record forecast_card =
  card_time :: "js_string option"
  card_weatherInfo :: weather_info
  card_maxTemp :: "int option"
  card_minTemp :: "int option"
  card_windSpeed :: "real option"
  card_precipitation :: "real option"

text \<open>
  The content of the element \<open>currentWeather\<close>: what the page was authored with, a
  \<open><div class=c>text</div>\<close> written by \<open>showLoading\<close> or \<open>showError\<close>, or the rendered
  summary. The element \<open>forecast\<close> holds a list of such nodes.
\<close>

datatype summary_html = AuthoredHtml | DivHtml js_string js_string | SummaryHtml summary

datatype forecast_node = AuthoredNode | DivNode js_string js_string | CardNode forecast_card

record heat_layer =
  points :: "(real \<times> real \<times> real) list"
  radius :: nat
  blur :: nat
  gradient :: "(real \<times> js_string) list"
  maxZoom :: nat

text \<open>
  The globals of the script, the Leaflet map it drives (view and overlay layers), the
  parts of the document it reads and writes, and two ghost fields: the log of the
  requests issued so far and the number of \<open>Math.random\<close> calls made so far.
  A state exists from \<open>map = L.map('map')\<close> on, the first statement that runs.
  The tile layer that \<open>initMap\<close> adds is not an overlay and is left out of \<open>map_layers\<close>.
  The elements with the ids \<open>cityInput\<close>, \<open>currentWeather\<close> and \<open>forecast\<close> exist.
\<close>

record state =
  currentLat :: real
  currentLon :: real
  heatLayer :: "heat_layer option"
  windLayer :: "heat_layer option"
  map_center :: "real \<times> real"
  map_zoom :: nat
  map_layers :: "heat_layer list"
  buttons :: "(js_string \<times> bool) list"
  cityInput :: js_string
  currentWeather :: summary_html
  forecast :: "forecast_node list"
  requests :: "request list"
  random_calls :: nat

text \<open>The document as loaded: the \<open>.map-controls\<close> buttons (text, class \<open>active\<close>) and the rest.\<close>

record page =
  page_buttons :: "(js_string \<times> bool) list"
  page_cityInput :: js_string
  page_currentWeather :: summary_html
  page_forecast :: "forecast_node list"

text \<open>
  A call either returns or throws; the state it has reached is kept in both cases, since
  a \<open>catch\<close> block goes on from there.
\<close>

datatype js_error = TypeError | URIError | FetchError | NoWeatherData

datatype outcome = Returned state | Thrown js_error state

fun final :: "outcome \<Rightarrow> state" where
  "final (Returned s) = s"
| "final (Thrown err s) = s"

fun then_do :: "outcome \<Rightarrow> (state \<Rightarrow> outcome) \<Rightarrow> outcome" where
  "then_do (Returned s) f = f s"
| "then_do (Thrown err s) f = Thrown err s"

fun try_catch :: "outcome \<Rightarrow> (js_error \<Rightarrow> state \<Rightarrow> outcome) \<Rightarrow> outcome" where
  "try_catch (Returned s) handler = Returned s"
| "try_catch (Thrown err s) handler = handler err s"

text \<open>\<open>x || d\<close> on a string that may be undefined: the empty string is falsy too.\<close>

fun js_or :: "js_string option \<Rightarrow> js_string \<Rightarrow> js_string" where
  "js_or None d = d"
| "js_or (Some x) d = (if x = [] then d else x)"

section \<open>The script\<close>

text \<open>
  Each handler is followed from its call to its end, one at a time: what another handler
  could do while this one waits at an \<open>await\<close> is not part of the model.
\<close>

subsection \<open>\<open>showLoading\<close>, \<open>showError\<close>, \<open>setActiveButton\<close>\<close>

definition showLoading :: "state \<Rightarrow> state" where
  "showLoading s =
     s\<lparr>currentWeather := DivHtml (js ''loading'') (js ''Loading weather data...''),
       forecast := [DivNode (js ''loading'') (js ''Loading forecast...'')]\<rparr>"

definition showError :: "js_string \<Rightarrow> state \<Rightarrow> state" where
  "showError message s = s\<lparr>currentWeather := DivHtml (js ''error'') message\<rparr>"

definition setActiveButton :: "js_string \<Rightarrow> state \<Rightarrow> state" where
  "setActiveButton buttonText s =
     s\<lparr>buttons := map (\<lambda>(text, active). (text, text = buttonText)) (buttons s)\<rparr>"

subsection \<open>\<open>displayCurrentWeather\<close> and \<open>displayForecast\<close>\<close>

text \<open>Reading a property of \<open>data.current\<close> throws a TypeError when it is undefined.\<close>

definition displayCurrentWeather ::
  "env \<Rightarrow> weather_data \<Rightarrow> js_string option \<Rightarrow> js_string option \<Rightarrow> state \<Rightarrow> outcome" where
  "displayCurrentWeather e data cityName country' s =
     (case current data of
        None \<Rightarrow> Thrown TypeError s
      | Some cur \<Rightarrow>
          let temp = map_option js_round (temperature_2m cur);
              feelsLike = map_option js_round (apparent_temperature cur);
              humidity = relative_humidity_2m cur;
              windSpeed = wind_speed_10m cur;
              windDeg = wind_direction_10m cur;
              weatherCode = weather_code cur;
              weatherInfo = getWeatherInfo weatherCode
          in Returned (s\<lparr>currentWeather := SummaryHtml
               \<lparr>summary_cityName = cityName, summary_country = country',
                summary_temp = temp, summary_weatherInfo = weatherInfo,
                summary_feelsLike = feelsLike, summary_humidity = humidity,
                summary_windSpeed = windSpeed, summary_windDeg = windDeg,
                summary_windDirection = getWindDirection (to_double e) windDeg\<rparr>\<rparr>))"

text \<open>
  The body of one iteration of the loop of \<open>displayForecast\<close>, up to the card it appends.
  \<open>None\<close> is the TypeError of reading an index of an array that is missing (or of
  \<open>daily\<close> itself missing); a read out of range gives \<open>undefined\<close> and no error.
\<close>

definition forecastCard :: "daily_weather option \<Rightarrow> int \<Rightarrow> forecast_card option" where
  "forecastCard daily' i =
     (case daily' of None \<Rightarrow> None | Some d \<Rightarrow>
      case time d of None \<Rightarrow> None | Some times' \<Rightarrow>
      case temperature_2m_max d of None \<Rightarrow> None | Some maxs \<Rightarrow>
      case temperature_2m_min d of None \<Rightarrow> None | Some mins \<Rightarrow>
      case daily_weather_code d of None \<Rightarrow> None | Some codes \<Rightarrow>
      case wind_speed_10m_max d of None \<Rightarrow> None | Some winds \<Rightarrow>
      case precipitation_sum d of None \<Rightarrow> None | Some precs \<Rightarrow>
        Some \<lparr>card_time = js_nth times' i,
              card_weatherInfo = getWeatherInfo (js_nth codes i),
              card_maxTemp = map_option js_round (js_nth maxs i),
              card_minTemp = map_option js_round (js_nth mins i),
              card_windSpeed = js_nth winds i,
              card_precipitation = js_nth precs i\<rparr>)"

text \<open>\<open>for (let i = 1; i <= 5; i++) { ...; forecastDiv.appendChild(forecastCard) }\<close>\<close>

function forecast_loop :: "daily_weather option \<Rightarrow> int \<Rightarrow> state \<Rightarrow> outcome" where
  "forecast_loop daily' i s =
     (if i \<le> 5 then
        (case forecastCard daily' i of
           None \<Rightarrow> Thrown TypeError s
         | Some forecastCard' \<Rightarrow>
             forecast_loop daily' (i + 1) (s\<lparr>forecast := forecast s @ [CardNode forecastCard']\<rparr>))
      else Returned s)"
  by pat_completeness auto
termination
  by (relation "measure (\<lambda>(daily', i, s). nat (6 - i))") auto

declare forecast_loop.simps [simp del]

definition displayForecast :: "weather_data \<Rightarrow> state \<Rightarrow> outcome" where
  "displayForecast data s = forecast_loop (daily data) 1 (s\<lparr>forecast := []\<rparr>)"

subsection \<open>\<open>updateMapLayers\<close> and the three mode buttons\<close>

text \<open>\<open>map.removeLayer(layer)\<close>: no effect when the layer is not on the map.\<close>

definition removeLayer :: "heat_layer \<Rightarrow> state \<Rightarrow> state" where
  "removeLayer layer s = s\<lparr>map_layers := remove1 layer (map_layers s)\<rparr>"

text \<open>
  The sampling loop \<open>for (let i = 0; i < 50; i++)\<close>: three calls of \<open>Math.random\<close> per
  point, in the order latitude, longitude, intensity. \<open>n\<close> counts the calls made so far.
\<close>

function points_loop ::
  "env \<Rightarrow> js_string \<Rightarrow> real \<Rightarrow> real \<Rightarrow> nat \<Rightarrow> nat \<Rightarrow> (real \<times> real \<times> real) list
     \<Rightarrow> nat \<times> (real \<times> real \<times> real) list" where
  "points_loop e activeButton lat0 lon0 i n pts =
     (if i < 50 then
        let fl = to_double e;
            lat = fl (lat0 + fl (fl (random e n - 0.5) * fl 0.2));
            lon = fl (lon0 + fl (fl (random e (n + 1) - 0.5) * fl 0.2))
        in if js_includes activeButton (js ''Temperature'') then
             let intensity = fl (fl (random e (n + 2) * 15) + 15)
             in points_loop e activeButton lat0 lon0 (i + 1) (n + 3) (pts @ [(lat, lon, intensity)])
           else if js_includes activeButton (js ''Wind'') then
             let intensity = fl (random e (n + 2) * 10)
             in points_loop e activeButton lat0 lon0 (i + 1) (n + 3) (pts @ [(lat, lon, intensity)])
           else
             let intensity = fl (random e (n + 2) * 5)
             in points_loop e activeButton lat0 lon0 (i + 1) (n + 3) (pts @ [(lat, lon, intensity)])
      else (n, pts))"
  by pat_completeness auto
termination
  by (relation "measure (\<lambda>(e, activeButton, lat0, lon0, i, n, pts). 50 - i)") auto

declare points_loop.simps [simp del]

definition temperature_gradient :: "(real \<times> js_string) list" where
  "temperature_gradient =
     [(0.4, js ''blue''), (0.6, js ''cyan''), (0.7, js ''lime''), (0.8, js ''yellow''),
      (1.0, js ''red'')]"

definition wind_gradient :: "(real \<times> js_string) list" where
  "wind_gradient =
     [(0.4, js ''rgba(0, 0, 255, 0.4)''), (0.6, js ''rgba(0, 255, 255, 0.6)''),
      (0.8, js ''rgba(255, 255, 0, 0.8)''), (1.0, js ''rgba(255, 0, 0, 1)'')]"

definition precipitation_gradient :: "(real \<times> js_string) list" where
  "precipitation_gradient =
     [(0.4, js ''rgba(0, 0, 255, 0.4)''), (0.6, js ''rgba(0, 255, 0, 0.6)''),
      (0.8, js ''rgba(255, 255, 0, 0.8)''), (1.0, js ''rgba(255, 0, 0, 1)'')]"

text \<open>
  \<open>document.querySelector('.map-controls button.active')\<close> is the first active button in
  document order, or \<open>null\<close>, and then reading \<open>.textContent\<close> throws a TypeError.
  \<open>windLayer\<close> is never assigned by the script.
\<close>

definition updateMapLayers :: "env \<Rightarrow> state \<Rightarrow> outcome" where
  "updateMapLayers e s =
     (let s1 = (case heatLayer s of None \<Rightarrow> s | Some layer \<Rightarrow> removeLayer layer s);
          s2 = (case windLayer s1 of None \<Rightarrow> s1 | Some layer \<Rightarrow> removeLayer layer s1)
      in case find snd (buttons s2) of
           None \<Rightarrow> Thrown TypeError s2
         | Some (activeButton, active) \<Rightarrow>
             let (n, pts) = points_loop e activeButton (currentLat s2) (currentLon s2)
                              0 (random_calls s2) [];
                 layer =
                   (if js_includes activeButton (js ''Temperature'') then
                      \<lparr>points = pts, radius = 25, blur = 15,
                       gradient = temperature_gradient, maxZoom = 10\<rparr>
                    else
                      \<lparr>points = pts, radius = 20, blur = 10,
                       gradient = (if js_includes activeButton (js ''Wind'') then wind_gradient
                                   else precipitation_gradient),
                       maxZoom = 10\<rparr>)
             in Returned (s2\<lparr>random_calls := n, heatLayer := Some layer,
                             map_layers := map_layers s2 @ [layer]\<rparr>))"

definition glyph_thermometer :: js_string where
  "glyph_thermometer = [0x011F, 0x0178, 0x0152, 0x00A1, 0x00EF, 0x00B8]"

definition glyph_wind :: js_string where
  "glyph_wind = [0x011F, 0x0178, 0x2019, 0x00A8]"

definition glyph_droplet :: js_string where
  "glyph_droplet = [0x011F, 0x0178, 0x2019, 0x00A7]"

definition showTemperatureMap :: "env \<Rightarrow> state \<Rightarrow> outcome" where
  "showTemperatureMap e s =
     updateMapLayers e (setActiveButton (glyph_thermometer @ js '' Temperature'') s)"

definition showWindMap :: "env \<Rightarrow> state \<Rightarrow> outcome" where
  "showWindMap e s = updateMapLayers e (setActiveButton (glyph_wind @ js '' Wind Flow'') s)"

definition showPrecipitationMap :: "env \<Rightarrow> state \<Rightarrow> outcome" where
  "showPrecipitationMap e s =
     updateMapLayers e (setActiveButton (glyph_droplet @ js '' Precipitation'') s)"

text \<open>\<open>map.setView([lat, lon], zoom)\<close>\<close>

definition setView :: "real \<times> real \<Rightarrow> nat \<Rightarrow> state \<Rightarrow> state" where
  "setView c z s = s\<lparr>map_center := c, map_zoom := z\<rparr>"

subsection \<open>\<open>getWeatherData\<close>\<close>

definition getWeatherData ::
  "env \<Rightarrow> real \<Rightarrow> real \<Rightarrow> js_string option \<Rightarrow> js_string option \<Rightarrow> state \<Rightarrow> outcome" where
  "getWeatherData e lat lon cityName country' s =
     try_catch
       (let s1 = s\<lparr>requests := requests s @ [WeatherRequest lat lon]\<rparr>
        in case weather e lat lon of
             None \<Rightarrow> Thrown FetchError s1
           | Some data \<Rightarrow>
               if current data = None then Thrown NoWeatherData s1
               else then_do (displayCurrentWeather e data cityName country' s1)
                      (displayForecast data))
       (\<lambda>error s'. Returned (showError (js ''Error fetching weather data. Please try again.'') s'))"

subsection \<open>\<open>searchWeather\<close>\<close>

definition searchWeather :: "env \<Rightarrow> state \<Rightarrow> outcome" where
  "searchWeather e s =
     (let cityInput' = trim (cityInput s)
      in if cityInput' = [] then Returned (showError (js ''Please enter a city name'') s)
         else
           try_catch
             (let s1 = showLoading s
              in if \<not> well_formed cityInput' then Thrown URIError s1
                 else
                   let s2 = s1\<lparr>requests := requests s1 @ [GeocodingRequest (ByName cityInput')]\<rparr>
                   in case geocoding e (ByName cityInput') of
                        None \<Rightarrow> Thrown FetchError s2
                      | Some geoData \<Rightarrow>
                          (case results geoData of
                             None \<Rightarrow>
                               Returned (showError (js ''City not found. Please try another city.'') s2)
                           | Some [] \<Rightarrow>
                               Returned (showError (js ''City not found. Please try another city.'') s2)
                           | Some (r # rs) \<Rightarrow>
                               let s3 = s2\<lparr>currentLat := latitude r, currentLon := longitude r\<rparr>
                               in then_do
                                    (getWeatherData e (latitude r) (longitude r) (name r) (country r) s3)
                                    (\<lambda>s4. updateMapLayers e
                                             (setView (latitude r, longitude r) 10 s4))))
             (\<lambda>error s'.
                Returned (showError (js ''Error fetching weather data. Please try again.'') s')))"

subsection \<open>\<open>getCurrentLocation\<close>\<close>

text \<open>\<open>data.results?.[0]\<close>\<close>

definition first_result :: "geo_data \<Rightarrow> geo_result option" where
  "first_result data = (case results data of None \<Rightarrow> None | Some rs \<Rightarrow> js_nth rs 0)"

definition getCurrentLocation :: "env \<Rightarrow> geolocation \<Rightarrow> state \<Rightarrow> outcome" where
  "getCurrentLocation e g s =
     (case g of
        Unsupported \<Rightarrow>
          Returned (showError (js ''Geolocation is not supported by this browser.'') s)
      | PositionError message \<Rightarrow>
          Returned (showError (js ''Error getting location: '' @ message) (showLoading s))
      | Position lat lon \<Rightarrow>
          let s1 = (showLoading s)\<lparr>currentLat := lat, currentLon := lon\<rparr>
          in try_catch
               (let s2 = s1\<lparr>requests := requests s1
                              @ [GeocodingRequest (ByCoordinate (currentLat s1) (currentLon s1))]\<rparr>
                in case geocoding e (ByCoordinate (currentLat s1) (currentLon s1)) of
                     None \<Rightarrow> Thrown FetchError s2
                   | Some data \<Rightarrow>
                       let cityName = js_or (Option.bind (first_result data) name) (js ''Your Location'');
                           country' = js_or (Option.bind (first_result data) country) []
                       in then_do
                            (getWeatherData e (currentLat s2) (currentLon s2)
                               (Some cityName) (Some country') s2)
                            (\<lambda>s3. updateMapLayers e
                                     (setView (currentLat s3, currentLon s3) 10 s3)))
               (\<lambda>error s'.
                  getWeatherData e (currentLat s') (currentLon s')
                    (Some (js ''Your Location'')) (Some []) s'))"

subsection \<open>\<open>initMap\<close> and \<open>initApp\<close>\<close>

text \<open>
  The globals at their initialisers (\<open>currentLat = 51.5074\<close>, \<open>currentLon = -0.1278\<close>, no
  layers), the document as loaded, and the map created and centred by
  \<open>L.map('map').setView([currentLat, currentLon], 10)\<close>.
\<close>

definition initMap :: "env \<Rightarrow> page \<Rightarrow> outcome" where
  "initMap e p =
     (let currentLat0 = 51.5074; currentLon0 = - 0.1278;
          s = \<lparr>currentLat = currentLat0, currentLon = currentLon0,
               heatLayer = None, windLayer = None,
               map_center = (currentLat0, currentLon0), map_zoom = 10, map_layers = [],
               buttons = page_buttons p, cityInput = page_cityInput p,
               currentWeather = page_currentWeather p, forecast = page_forecast p,
               requests = [], random_calls = 0\<rparr>
      in showTemperatureMap e s)"

definition initApp :: "env \<Rightarrow> page \<Rightarrow> outcome" where
  "initApp e p = then_do (initMap e p) (searchWeather e)"

section \<open>Predicates used in the statements\<close>

text \<open>
  A sample lies within 0.1 degree of the centre on each axis, up to the rounding of the
  three operations that compute it, and within the range of the mode.
\<close>

definition sample_in_range :: "js_string \<Rightarrow> real \<Rightarrow> real \<Rightarrow> real \<times> real \<times> real \<Rightarrow> bool" where
  "sample_in_range activeButton lat0 lon0 p =
     (case p of (lat, lon, intensity) \<Rightarrow>
        \<bar>lat - lat0\<bar> \<le> 0.1 + 1 / 2 ^ 42 \<and> \<bar>lon - lon0\<bar> \<le> 0.1 + 1 / 2 ^ 42
      \<and> (if js_includes activeButton (js ''Temperature'') then 15 \<le> intensity \<and> intensity \<le> 30
         else if js_includes activeButton (js ''Wind'') then 0 \<le> intensity \<and> intensity \<le> 10
         else 0 \<le> intensity \<and> intensity \<le> 5))"

text \<open>The \<open>daily\<close> block and its six arrays are present (of whatever length).\<close>

definition daily_complete :: "weather_data \<Rightarrow> bool" where
  "daily_complete data =
     (case daily data of
        None \<Rightarrow> False
      | Some d \<Rightarrow>
          time d \<noteq> None \<and> temperature_2m_max d \<noteq> None \<and> temperature_2m_min d \<noteq> None
        \<and> daily_weather_code d \<noteq> None \<and> wind_speed_10m_max d \<noteq> None
        \<and> precipitation_sum d \<noteq> None)"

text \<open>The weather request fails, or its answer has no \<open>current\<close> block.\<close>

definition weather_fails :: "env \<Rightarrow> real \<Rightarrow> real \<Rightarrow> bool" where
  "weather_fails e lat lon =
     (case weather e lat lon of None \<Rightarrow> True | Some data \<Rightarrow> current data = None)"

text \<open>
  A submitted name lookup fails at geocoding (the name cannot be encoded, the request
  fails, or there is no match) or at the weather request for the first match.
\<close>

definition lookup_fails :: "env \<Rightarrow> js_string \<Rightarrow> bool" where
  "lookup_fails e city =
     (\<not> well_formed city \<or>
      (case geocoding e (ByName city) of
         None \<Rightarrow> True
       | Some geoData \<Rightarrow>
           (case results geoData of
              None \<Rightarrow> True
            | Some [] \<Rightarrow> True
            | Some (r # rs) \<Rightarrow> weather_fails e (latitude r) (longitude r))))"

text \<open>
  The two removals at the head of \<open>updateMapLayers\<close>, and the layer it builds from the
  sampled points, named for the lemmas below.
\<close>

definition layers_removed :: "state \<Rightarrow> state" where
  "layers_removed s =
     (let s1 = (case heatLayer s of None \<Rightarrow> s | Some layer \<Rightarrow> removeLayer layer s)
      in case windLayer s1 of None \<Rightarrow> s1 | Some layer \<Rightarrow> removeLayer layer s1)"

definition new_layer :: "js_string \<Rightarrow> (real \<times> real \<times> real) list \<Rightarrow> heat_layer" where
  "new_layer activeButton pts =
     (if js_includes activeButton (js ''Temperature'') then
        \<lparr>points = pts, radius = 25, blur = 15, gradient = temperature_gradient, maxZoom = 10\<rparr>
      else
        \<lparr>points = pts, radius = 20, blur = 10,
         gradient = (if js_includes activeButton (js ''Wind'') then wind_gradient
                     else precipitation_gradient),
         maxZoom = 10\<rparr>)"

text \<open>The point that one iteration of the sampling loop appends.\<close>

definition new_point :: "env \<Rightarrow> js_string \<Rightarrow> real \<Rightarrow> real \<Rightarrow> nat \<Rightarrow> real \<times> real \<times> real" where
  "new_point e activeButton lat0 lon0 n =
     (let fl = to_double e
      in (fl (lat0 + fl (fl (random e n - 0.5) * fl 0.2)),
          fl (lon0 + fl (fl (random e (n + 1) - 0.5) * fl 0.2)),
          if js_includes activeButton (js ''Temperature'') then fl (fl (random e (n + 2) * 15) + 15)
          else if js_includes activeButton (js ''Wind'') then fl (random e (n + 2) * 10)
          else fl (random e (n + 2) * 5)))"

text \<open>
  The state in which \<open>searchWeather\<close> calls \<open>getWeatherData\<close> for the first match \<open>r\<close> of
  the query \<open>city\<close>, and the state in which \<open>getCurrentLocation\<close> does so at the position
  \<open>(lat, lon)\<close>.
\<close>

definition name_resolved :: "state \<Rightarrow> js_string \<Rightarrow> geo_result \<Rightarrow> state" where
  "name_resolved s city r =
     (showLoading s)\<lparr>requests := requests s @ [GeocodingRequest (ByName city)],
                     currentLat := latitude r, currentLon := longitude r\<rparr>"

definition position_resolved :: "state \<Rightarrow> real \<Rightarrow> real \<Rightarrow> state" where
  "position_resolved s lat lon =
     (showLoading s)\<lparr>currentLat := lat, currentLon := lon,
                     requests := requests s @ [GeocodingRequest (ByCoordinate lat lon)]\<rparr>"

text \<open>The message of both \<open>catch\<close> blocks that report to the user.\<close>

definition fetch_error :: summary_html where
  "fetch_error = DivHtml (js ''error'') (js ''Error fetching weather data. Please try again.'')"

text \<open>The state that \<open>initMap\<close> reaches when the page has the Temperature button.\<close>

definition started :: "env \<Rightarrow> page \<Rightarrow> state" where
  "started e p =
     \<lparr>currentLat = 51.5074, currentLon = - 0.1278,
      heatLayer = Some (new_layer (glyph_thermometer @ js '' Temperature'')
                    (snd (points_loop e (glyph_thermometer @ js '' Temperature'')
                            51.5074 (- 0.1278) 0 0 []))),
      windLayer = None,
      map_center = (51.5074, - 0.1278), map_zoom = 10,
      map_layers = [new_layer (glyph_thermometer @ js '' Temperature'')
                      (snd (points_loop e (glyph_thermometer @ js '' Temperature'')
                              51.5074 (- 0.1278) 0 0 []))],
      buttons = map (\<lambda>(text, active). (text, text = glyph_thermometer @ js '' Temperature''))
                  (page_buttons p),
      cityInput = page_cityInput p,
      currentWeather = page_currentWeather p, forecast = page_forecast p,
      requests = [],
      random_calls = fst (points_loop e (glyph_thermometer @ js '' Temperature'')
                            51.5074 (- 0.1278) 0 0 [])\<rparr>"

section \<open>Sample inputs\<close>

text \<open>
  Concrete pages, states, provider answers and random sources, used to instantiate the
  theorems. The sample hosts compute exactly; the quotients and roundings that the samples
  evaluate (\<open>225 / 22.5\<close>, \<open>-45 / 22.5\<close>, \<open>315 / 22.5\<close>) are exact in doubles as well.
\<close>

definition sample_buttons :: "(js_string \<times> bool) list" where
  "sample_buttons =
     [(glyph_thermometer @ js '' Temperature'', True),
      (glyph_wind @ js '' Wind Flow'', False),
      (glyph_droplet @ js '' Precipitation'', False)]"

definition sample_card :: forecast_card where
  "sample_card =
     \<lparr>card_time = Some (js ''2024-05-02''),
      card_weatherInfo = \<lparr>description = js ''Overcast'', icon = icon_cloud\<rparr>,
      card_maxTemp = Some 18, card_minTemp = Some 9,
      card_windSpeed = Some 12.5, card_precipitation = Some 0\<rparr>"

definition sample_state :: state where
  "sample_state =
     \<lparr>currentLat = 51.5074, currentLon = - 0.1278,
      heatLayer = None, windLayer = None,
      map_center = (51.5074, - 0.1278), map_zoom = 10, map_layers = [],
      buttons = sample_buttons, cityInput = js ''Paris'',
      currentWeather = AuthoredHtml,
      forecast = [CardNode sample_card, CardNode sample_card, CardNode sample_card,
                  CardNode sample_card, CardNode sample_card],
      requests = [], random_calls = 0\<rparr>"


definition paris :: geo_result where
  "paris = \<lparr>latitude = 48.85341, longitude = 2.3488,
             name = Some (js ''Paris''), country = Some (js ''France'')\<rparr>"

definition sample_weather :: weather_data where
  "sample_weather =
     \<lparr>current = Some \<lparr>temperature_2m = Some 17.6, relative_humidity_2m = Some 60,
                       apparent_temperature = Some 16.2, weather_code = Some 3,
                       wind_speed_10m = Some 11.3, wind_direction_10m = Some 225\<rparr>,
      daily = Some \<lparr>time = Some [js ''2024-05-01'', js ''2024-05-02'', js ''2024-05-03'',
                                 js ''2024-05-04'', js ''2024-05-05'', js ''2024-05-06''],
                    daily_weather_code = Some [3, 61, 0, 1, 2, 95],
                    temperature_2m_max = Some [18.4, 17.5, 20.1, 21.0, 19.5, 16.2],
                    temperature_2m_min = Some [9.1, 8.5, 10.0, 11.4, 10.5, 9.9],
                    precipitation_sum = Some [0, 4.2, 0, 0, 0.1, 12.3],
                    wind_speed_10m_max = Some [12.5, 20.1, 8.0, 9.5, 14.2, 25.0]\<rparr>\<rparr>"

text \<open>The geocoder finds nothing and the weather endpoint is unreachable.\<close>

definition env_no_match :: env where
  "env_no_match =
     \<lparr>geocoding = (\<lambda>q. Some \<lparr>results = None\<rparr>), weather = (\<lambda>lat lon. None),
      random = (\<lambda>n. 1 / 2), to_double = (\<lambda>x. x)\<rparr>"

text \<open>The geocoder answers Paris and the weather endpoint is unreachable.\<close>

definition env_forecast_down :: env where
  "env_forecast_down =
     \<lparr>geocoding = (\<lambda>q. Some \<lparr>results = Some [paris]\<rparr>), weather = (\<lambda>lat lon. None),
      random = (\<lambda>n. 1 / 2), to_double = (\<lambda>x. x)\<rparr>"

text \<open>Both endpoints answer.\<close>

definition env_ok :: env where
  "env_ok =
     \<lparr>geocoding = (\<lambda>q. Some \<lparr>results = Some [paris]\<rparr>),
      weather = (\<lambda>lat lon. Some sample_weather),
      random = (\<lambda>n. 1 / 2), to_double = (\<lambda>x. x)\<rparr>"

text \<open>The reverse geocoder answers one entry that has a country and no name.\<close>

definition env_country_only :: env where
  "env_country_only =
     \<lparr>geocoding = (\<lambda>q. Some \<lparr>results = Some [\<lparr>latitude = 48.85341, longitude = 2.3488,
                                                    name = None, country = Some (js ''France'')\<rparr>]\<rparr>),
      weather = (\<lambda>lat lon. Some sample_weather),
      random = (\<lambda>n. 1 / 2), to_double = (\<lambda>x. x)\<rparr>"

definition sample_page :: page where
  "sample_page =
     \<lparr>page_buttons = sample_buttons, page_cityInput = js ''Paris'',
      page_currentWeather = AuthoredHtml, page_forecast = []\<rparr>"

text \<open>The geocoder answers London; a page whose input field holds \<open>London\<close>, and one whose field is empty.\<close>

definition london :: geo_result where
  "london = \<lparr>latitude = 51.50853, longitude = - 0.12574,
              name = Some (js ''London''), country = Some (js ''United Kingdom'')\<rparr>"

definition env_london :: env where
  "env_london =
     \<lparr>geocoding = (\<lambda>q. Some \<lparr>results = Some [london]\<rparr>),
      weather = (\<lambda>lat lon. Some sample_weather),
      random = (\<lambda>n. 1 / 2), to_double = (\<lambda>x. x)\<rparr>"

definition london_page :: page where
  "london_page =
     \<lparr>page_buttons = sample_buttons, page_cityInput = js ''London'',
      page_currentWeather = AuthoredHtml, page_forecast = []\<rparr>"

definition blank_page :: page where
  "blank_page =
     \<lparr>page_buttons = sample_buttons, page_cityInput = [],
      page_currentWeather = AuthoredHtml, page_forecast = []\<rparr>"

text \<open>The reverse geocoder answers without results; the weather endpoint answers.\<close>

definition env_unnamed :: env where
  "env_unnamed =
     \<lparr>geocoding = (\<lambda>q. Some \<lparr>results = None\<rparr>),
      weather = (\<lambda>lat lon. Some sample_weather),
      random = (\<lambda>n. 1 / 2), to_double = (\<lambda>x. x)\<rparr>"

section \<open>Rounding to the nearest double\<close>

lemma rounding_error:
  assumes "rounds_to_nearest fl" and "\<bar>x\<bar> \<le> 2 ^ j" and "j \<le> 1023"
  shows "\<bar>fl x - x\<bar> \<le> 2 ^ j / 2 ^ 52"
proof -
  have "(2::real) ^ j \<le> 2 ^ 1023"
    using assms(3) by (intro power_increasing) simp_all
  then have "\<bar>x\<bar> \<le> 2 ^ 1023"
    using assms(2) by linarith
  then have err: "\<bar>fl x - x\<bar> \<le> \<bar>x\<bar> / 2 ^ 53 + 1 / 2 ^ 1075"
    using assms(1) by (simp add: rounds_to_nearest_def)
  have "\<bar>x\<bar> / 2 ^ 53 \<le> 2 ^ j / 2 ^ 53"
    using assms(2) by (simp add: divide_right_mono)
  moreover have "(1::real) / 2 ^ 1075 \<le> 2 ^ j / 2 ^ 53"
  proof -
    have "(1::real) / 2 ^ 1075 \<le> 1 / 2 ^ 53"
      by (intro divide_left_mono power_increasing) simp_all
    also have "\<dots> \<le> 2 ^ j / 2 ^ 53"
      by (intro divide_right_mono) simp_all
    finally show ?thesis .
  qed
  moreover have "(2::real) ^ j / 2 ^ 53 + 2 ^ j / 2 ^ 53 = 2 ^ j / 2 ^ 52"
    by simp
  ultimately show ?thesis
    using err by linarith
qed

lemma rounds_to_nearest_exact: "rounds_to_nearest (\<lambda>x. x)"
  by (simp add: rounds_to_nearest_def)

lemma rounding_exact:
  assumes "rounds_to_nearest fl"
  shows "fl 0 = 0" and "fl 5 = 5" and "fl 10 = 10" and "fl 15 = 15" and "fl 30 = 30"
proof -
  have exact: "fl (of_int n) = of_int n" if "\<bar>n\<bar> \<le> 2 ^ 53" for n :: int
    using assms that by (simp add: rounds_to_nearest_def)
  show "fl 0 = 0" using exact [of 0] by simp
  show "fl 5 = 5" using exact [of 5] by simp
  show "fl 10 = 10" using exact [of 10] by simp
  show "fl 15 = 15" using exact [of 15] by simp
  show "fl 30 = 30" using exact [of 30] by simp
qed

lemma rounding_mono: "rounds_to_nearest fl \<Longrightarrow> x \<le> y \<Longrightarrow> fl x \<le> fl y"
  by (simp add: rounds_to_nearest_def)

lemma rounding_small:
  assumes "rounds_to_nearest fl" and "\<bar>x\<bar> \<le> 256"
  shows "\<bar>fl x - x\<bar> \<le> 1 / 2 ^ 44"
proof -
  have "\<bar>x\<bar> \<le> 2 ^ 8"
    using assms(2) by simp
  then have "\<bar>fl x - x\<bar> \<le> 2 ^ 8 / 2 ^ 52"
    using assms(1) by (intro rounding_error) simp_all
  then show ?thesis
    by simp
qed

lemma jitter_near:
  assumes fl: "rounds_to_nearest fl" and r: "0 \<le> r" "r < 1" and c: "\<bar>c\<bar> \<le> 180"
  shows "\<bar>fl (c + fl (fl (r - 0.5) * fl 0.2)) - c\<bar> \<le> 0.1 + 1 / 2 ^ 42"
proof -
  define u :: real where "u = 1 / 2 ^ 44"
  define a where "a = fl (r - 0.5)"
  define k where "k = fl 0.2"
  define b where "b = fl (a * k)"
  have u: "0 < u" "u \<le> 1 / 1000"
    by (simp_all add: u_def)
  have "\<bar>r - 0.5\<bar> \<le> 256"
    using r by simp
  then have "\<bar>a - (r - 0.5)\<bar> \<le> u"
    unfolding a_def u_def using fl by (intro rounding_small)
  then have a: "\<bar>a\<bar> \<le> 1 / 2 + u"
    using r by simp
  have "\<bar>0.2 :: real\<bar> \<le> 256"
    by (simp add: abs_le_iff)
  then have "\<bar>k - 0.2\<bar> \<le> u"
    unfolding k_def u_def using fl by (intro rounding_small)
  then have k: "\<bar>k\<bar> \<le> 1 / 5 + u"
    by simp
  have "\<bar>a * k\<bar> = \<bar>a\<bar> * \<bar>k\<bar>"
    by (rule abs_mult)
  also have "\<dots> \<le> (1 / 2 + u) * (1 / 5 + u)"
    using a k by (intro mult_mono) simp_all
  also have "\<dots> = 1 / 10 + u * (7 / 10 + u)"
    by (simp add: algebra_simps)
  also have "\<dots> \<le> 1 / 10 + u * 1"
    using u by (intro add_left_mono mult_left_mono) simp_all
  finally have ak: "\<bar>a * k\<bar> \<le> 1 / 10 + u"
    by simp
  then have "\<bar>a * k\<bar> \<le> 256"
    using u by simp
  then have "\<bar>b - a * k\<bar> \<le> u"
    unfolding b_def u_def using fl by (intro rounding_small)
  then have b: "\<bar>b\<bar> \<le> 1 / 10 + 2 * u"
    using ak by simp
  then have "\<bar>c + b\<bar> \<le> 256"
    using c u by simp
  then have "\<bar>fl (c + b) - (c + b)\<bar> \<le> u"
    unfolding u_def using fl by (intro rounding_small)
  then have "\<bar>fl (c + b) - c\<bar> \<le> 1 / 10 + 3 * u"
    using b by simp
  also have "\<dots> \<le> 0.1 + 1 / 2 ^ 42"
    by (simp add: u_def)
  finally show ?thesis
    by (simp add: b_def a_def k_def)
qed

lemma intensity_temperature:
  assumes fl: "rounds_to_nearest fl" and r: "0 \<le> r" "r < 1"
  shows "15 \<le> fl (fl (r * 15) + 15)" and "fl (fl (r * 15) + 15) \<le> 30"
proof -
  have "fl 0 \<le> fl (r * 15)" and "fl (r * 15) \<le> fl 15"
    using r by (auto intro!: rounding_mono [OF fl])
  then have "0 \<le> fl (r * 15)" and "fl (r * 15) \<le> 15"
    by (simp_all add: rounding_exact [OF fl])
  then have "fl 15 \<le> fl (fl (r * 15) + 15)" and "fl (fl (r * 15) + 15) \<le> fl 30"
    by (auto intro!: rounding_mono [OF fl])
  then show "15 \<le> fl (fl (r * 15) + 15)" and "fl (fl (r * 15) + 15) \<le> 30"
    by (simp_all add: rounding_exact [OF fl])
qed

lemma intensity_wind:
  assumes fl: "rounds_to_nearest fl" and r: "0 \<le> r" "r < 1"
  shows "0 \<le> fl (r * 10)" and "fl (r * 10) \<le> 10"
proof -
  have "fl 0 \<le> fl (r * 10)" and "fl (r * 10) \<le> fl 10"
    using r by (auto intro!: rounding_mono [OF fl])
  then show "0 \<le> fl (r * 10)" and "fl (r * 10) \<le> 10"
    by (simp_all add: rounding_exact [OF fl])
qed

lemma intensity_precipitation:
  assumes fl: "rounds_to_nearest fl" and r: "0 \<le> r" "r < 1"
  shows "0 \<le> fl (r * 5)" and "fl (r * 5) \<le> 5"
proof -
  have "fl 0 \<le> fl (r * 5)" and "fl (r * 5) \<le> fl 5"
    using r by (auto intro!: rounding_mono [OF fl])
  then show "0 \<le> fl (r * 5)" and "fl (r * 5) \<le> 5"
    by (simp_all add: rounding_exact [OF fl])
qed

section \<open>The wind-direction label\<close>

lemma js_round_sector:
  assumes "rounds_to_nearest fl" and "\<bar>n\<bar> \<le> 10 ^ 9"
  shows "js_round (fl (of_int n / 22.5)) = (4 * n + 45) div 90"
proof -
  define q :: real where "q = of_int n / 22.5"
  define m where "m = (4 * n + 45) div 90"
  have "\<bar>q\<bar> \<le> 2 ^ 40"
  proof -
    have "\<bar>q\<bar> \<le> \<bar>of_int n\<bar>"
      unfolding q_def by (simp add: field_simps)
    also have "\<dots> \<le> 10 ^ 9"
      using assms(2) by (metis of_int_abs of_int_le_iff of_int_numeral of_int_power)
    also have "\<dots> \<le> (2::real) ^ 40"
      by simp
    finally show ?thesis .
  qed
  then have "\<bar>fl q - q\<bar> \<le> 2 ^ 40 / 2 ^ 52"
    using assms(1) by (intro rounding_error) simp_all
  then have err: "\<bar>fl q - q\<bar> < 1 / 90"
    by simp
  have "90 * m + 1 \<le> 4 * n + 45" and "4 * n + 45 \<le> 90 * m + 89"
    unfolding m_def by presburger+
  then have "real_of_int (90 * m + 1) \<le> real_of_int (4 * n + 45)"
    and "real_of_int (4 * n + 45) \<le> real_of_int (90 * m + 89)"
    by (simp_all only: of_int_le_iff)
  moreover have "real_of_int (4 * n + 45) = 90 * (q + 1 / 2)"
    by (simp add: q_def field_simps)
  ultimately have "of_int m + 1 / 90 \<le> q + 1 / 2" and "q + 1 / 2 \<le> of_int m + 89 / 90"
    by simp_all
  then have "of_int m \<le> fl q + 1 / 2" and "fl q + 1 / 2 < of_int m + 1"
    using err by linarith+
  then have "\<lfloor>fl q + 1 / 2\<rfloor> = m"
    by (intro floor_unique) simp_all
  then show ?thesis
    by (simp add: js_round_def q_def m_def)
qed

lemma length_directions: "length directions = 16"
  by (simp add: directions_def)

lemma directions_0: "directions ! 0 = js ''N''"
  by (simp add: directions_def)

lemma label_of_index:
  "js_nth directions (js_rem r 16) =
     (if 0 \<le> r then Some (directions ! nat (r mod 16))
      else if r mod 16 = 0 then Some (js ''N'') else None)"
proof (cases "0 \<le> r")
  case True
  then have "js_rem r 16 = r mod 16"
    unfolding js_rem_def by (cases "r = 0") (simp_all add: sgn_if)
  moreover have "0 \<le> r mod 16" and "r mod 16 < 16"
    by simp_all
  ultimately show ?thesis
    using True by (simp add: js_nth_def length_directions)
next
  case False
  then have rem: "js_rem r 16 = - ((- r) mod 16)"
    by (simp add: js_rem_def sgn_if)
  have zero: "(- r) mod 16 = 0 \<longleftrightarrow> r mod 16 = 0"
    by presburger
  have "0 \<le> (- r) mod 16"
    by simp
  then show ?thesis
    using False zero unfolding rem
    by (cases "(- r) mod 16 = 0") (simp_all add: js_nth_def length_directions directions_0)
qed

lemma sector_shift: "(4 * (n + 360 * k) + 45) div 90 = (4 * n + 45) div 90 + 16 * (k::int)"
proof -
  have "4 * (n + 360 * k) + 45 = (4 * n + 45) + (16 * k) * 90"
    by simp
  then show ?thesis
    by (simp only: div_mult_self1)
qed

lemma sector_nonneg: "0 \<le> (4 * n + 45) div 90 \<longleftrightarrow> - 11 \<le> (n::int)"
proof -
  have "0 \<le> (4 * n + 45) div 90 \<longleftrightarrow> 0 \<le> 4 * n + 45"
    by (simp add: pos_imp_zdiv_nonneg_iff)
  then show ?thesis
    by linarith
qed

lemma sector_north: "((4 * n + 45) div 90) mod 16 = 0 \<longleftrightarrow> (n + 11) mod 360 \<le> (22::int)"
proof -
  define j where "j = (n + 11) div 360"
  define t where "t = (n + 11) mod 360"
  define d where "d = (4 * t + 1) div 90"
  define m where "m = (4 * t + 1) mod 90"
  have t: "0 \<le> t" "t < 360"
    by (simp_all add: t_def)
  have m: "0 \<le> m" "m < 90"
    by (simp_all add: m_def)
  have split: "4 * t + 1 = 90 * d + m"
    by (simp add: d_def m_def)
  have d: "0 \<le> d" "d < 16"
    using t m split by linarith+
  have "n + 11 = 360 * j + t"
    by (simp add: j_def t_def)
  then have "4 * n + 45 = (4 * t + 1) + (16 * j) * 90"
    by linarith
  then have "(4 * n + 45) div 90 = 16 * j + d"
    unfolding d_def by (simp only: div_mult_self1)
  then have "((4 * n + 45) div 90) mod 16 = d mod 16"
    by (simp add: add.commute)
  then have "((4 * n + 45) div 90) mod 16 = d"
    using d by simp
  moreover have "d = 0 \<longleftrightarrow> t \<le> 22"
    using t m d split by linarith
  ultimately show ?thesis
    by (simp add: t_def)
qed

lemma getWindDirection_integer:
  assumes "rounds_to_nearest fl" and "\<bar>n\<bar> \<le> 10 ^ 9"
  shows "getWindDirection fl (Some (of_int n)) =
     (if - 11 \<le> n then Some (directions ! nat (((4 * n + 45) div 90) mod 16))
      else if (n + 11) mod 360 \<le> 22 then Some (js ''N'') else None)"
proof -
  have "getWindDirection fl (Some (of_int n)) =
      js_nth directions (js_rem ((4 * n + 45) div 90) 16)"
    by (simp only: getWindDirection.simps Let_def js_round_sector [OF assms])
  then show ?thesis
    by (simp only: label_of_index sector_nonneg sector_north)
qed

text \<open>
  Claim C4, as the code has it. Take integer degrees \<open>d\<close> and an integer \<open>k\<close>, both
  \<open>d\<close> and \<open>d + 360 k\<close> within \<open>10^9\<close> in magnitude, and any rounding to nearest for the
  quotient. Then \<open>label(d) = label(d + 360 k)\<close> exactly when \<open>d\<close> and \<open>d + 360 k\<close> are both
  at least \<open>-11\<close>, or both below \<open>-11\<close>, or \<open>d\<close> lies within 11 degrees of a multiple of 360.
  From \<open>-11\<close> upwards the label is one of the sixteen compass labels. Below \<open>-11\<close> the
  remainder \<open>%\<close> is not positive: the label is \<open>N\<close> within 11 degrees of a multiple of 360
  and \<open>undefined\<close> elsewhere. The function has no throwing branch.
\<close>

theorem getWindDirection_periodic:
  assumes "rounds_to_nearest fl" and "\<bar>n\<bar> \<le> 10 ^ 9" and "\<bar>n + 360 * k\<bar> \<le> 10 ^ 9"
  shows "(getWindDirection fl (Some (of_int (n + 360 * k))) = getWindDirection fl (Some (of_int n))
          \<longleftrightarrow> (- 11 \<le> n \<and> - 11 \<le> n + 360 * k) \<or> (n < - 11 \<and> n + 360 * k < - 11)
               \<or> (n + 11) mod 360 \<le> 22)
    \<and> (- 11 \<le> n \<longrightarrow> (\<exists>label \<in> set directions. getWindDirection fl (Some (of_int n)) = Some label))
    \<and> (n < - 11 \<longrightarrow>
          getWindDirection fl (Some (of_int n)) =
            (if (n + 11) mod 360 \<le> 22 then Some (js ''N'') else None))"
proof -
  define r where "r = (4 * n + 45) div 90"
  have same: "((4 * (n + 360 * k) + 45) div 90) mod 16 = r mod 16"
    unfolding sector_shift r_def by simp
  have "n + 360 * k + 11 = (n + 11) + k * 360"
    by simp
  then have north: "(n + 360 * k + 11) mod 360 = (n + 11) mod 360"
    by (simp only: mod_mult_self1)
  have zero: "r mod 16 = 0 \<longleftrightarrow> (n + 11) mod 360 \<le> 22"
    unfolding r_def by (rule sector_north)
  have label: "getWindDirection fl (Some (of_int n)) =
     (if - 11 \<le> n then Some (directions ! nat (r mod 16))
      else if (n + 11) mod 360 \<le> 22 then Some (js ''N'') else None)"
    unfolding r_def using assms(1,2) by (rule getWindDirection_integer)
  have label': "getWindDirection fl (Some (of_int (n + 360 * k))) =
     (if - 11 \<le> n + 360 * k then Some (directions ! nat (r mod 16))
      else if (n + 11) mod 360 \<le> 22 then Some (js ''N'') else None)"
    using getWindDirection_integer [OF assms(1,3)]
    by (simp only: same north)
  have at_north: "directions ! nat (r mod 16) = js ''N''" if "(n + 11) mod 360 \<le> 22"
    using that zero by (simp add: directions_0)
  have "0 \<le> r mod 16" and "r mod 16 < 16"
    by simp_all
  then have "nat (r mod 16) < length directions"
    by (simp add: length_directions)
  then have member: "directions ! nat (r mod 16) \<in> set directions"
    by (rule nth_mem)
  have periodic: "getWindDirection fl (Some (of_int (n + 360 * k))) = getWindDirection fl (Some (of_int n))
          \<longleftrightarrow> (- 11 \<le> n \<and> - 11 \<le> n + 360 * k) \<or> (n < - 11 \<and> n + 360 * k < - 11)
               \<or> (n + 11) mod 360 \<le> 22"
  proof (cases "(n + 11) mod 360 \<le> 22")
    case True
    then show ?thesis
      unfolding label label' by (simp add: at_north)
  next
    case False
    then show ?thesis
      unfolding label label' by (cases "- 11 \<le> n"; cases "- 11 \<le> n + 360 * k") simp_all
  qed
  have compass: "\<exists>label \<in> set directions. getWindDirection fl (Some (of_int n)) = Some label"
    if "- 11 \<le> n"
    using that member unfolding label by simp
  have negative: "getWindDirection fl (Some (of_int n)) =
            (if (n + 11) mod 360 \<le> 22 then Some (js ''N'') else None)" if "n < - 11"
    using that unfolding label by simp
  show ?thesis
    using periodic compass negative by blast
qed

theorem getWindDirection_periodic_witness:
  "getWindDirection (\<lambda>x. x) (Some (of_int (350 + 360 * (- 1))))
       = getWindDirection (\<lambda>x. x) (Some (of_int 350))
   \<and> getWindDirection (\<lambda>x. x) (Some (of_int (- 360))) = Some (js ''N'')
   \<and> getWindDirection (\<lambda>x. x) (Some (of_int (- 45))) = None"
  using getWindDirection_periodic [OF rounds_to_nearest_exact, of 350 "- 1"]
    getWindDirection_periodic [OF rounds_to_nearest_exact, of "- 45" 0]
    getWindDirection_periodic [OF rounds_to_nearest_exact, of "- 360" 0]
    rounds_to_nearest_exact
  by simp

text \<open>
  Claim C4 as stated fails at \<open>d = -45\<close>, \<open>k = 1\<close>: \<open>-45 / 22.5\<close> is \<open>-2\<close>,
  \<open>-2 % 16\<close> is \<open>-2\<close> and \<open>directions[-2]\<close> is \<open>undefined\<close>, while 315 degrees is \<open>NW\<close>.
\<close>

theorem getWindDirection_negative_counterexample:
  "getWindDirection (\<lambda>x. x) (Some (- 45 + 360 * of_int 1))
     \<noteq> getWindDirection (\<lambda>x. x) (Some (- 45))"
  by (simp add: js_rem_def js_round_def js_nth_def directions_def)

section \<open>The weather-code catalog\<close>

text \<open>
  Claim C9. \<open>getWeatherInfo\<close> is a total function (it has no throwing branch): each of the
  seventeen codes of the table gives its entry, and every other code, as well as
  \<open>undefined\<close>, gives the sentinel with the description \<open>Unknown\<close>.
\<close>

theorem getWeatherInfo_catalog:
  "getWeatherInfo (Some 0) = \<lparr>description = js ''Clear sky'', icon = icon_sun\<rparr>
 \<and> getWeatherInfo (Some 1) = \<lparr>description = js ''Mainly clear'', icon = icon_sun_small_cloud\<rparr>
 \<and> getWeatherInfo (Some 2) = \<lparr>description = js ''Partly cloudy'', icon = icon_sun_behind_cloud\<rparr>
 \<and> getWeatherInfo (Some 3) = \<lparr>description = js ''Overcast'', icon = icon_cloud\<rparr>
 \<and> getWeatherInfo (Some 45) = \<lparr>description = js ''Fog'', icon = icon_fog\<rparr>
 \<and> getWeatherInfo (Some 48) = \<lparr>description = js ''Depositing rime fog'', icon = icon_fog\<rparr>
 \<and> getWeatherInfo (Some 51) = \<lparr>description = js ''Light drizzle'', icon = icon_sun_rain_cloud\<rparr>
 \<and> getWeatherInfo (Some 53) = \<lparr>description = js ''Moderate drizzle'', icon = icon_sun_rain_cloud\<rparr>
 \<and> getWeatherInfo (Some 55) = \<lparr>description = js ''Dense drizzle'', icon = icon_sun_rain_cloud\<rparr>
 \<and> getWeatherInfo (Some 61) = \<lparr>description = js ''Slight rain'', icon = icon_rain_cloud\<rparr>
 \<and> getWeatherInfo (Some 63) = \<lparr>description = js ''Moderate rain'', icon = icon_rain_cloud\<rparr>
 \<and> getWeatherInfo (Some 65) = \<lparr>description = js ''Heavy rain'', icon = icon_thunder_cloud\<rparr>
 \<and> getWeatherInfo (Some 80) = \<lparr>description = js ''Slight rain showers'', icon = icon_sun_rain_cloud\<rparr>
 \<and> getWeatherInfo (Some 81) = \<lparr>description = js ''Moderate rain showers'', icon = icon_rain_cloud\<rparr>
 \<and> getWeatherInfo (Some 82) = \<lparr>description = js ''Violent rain showers'', icon = icon_thunder_cloud\<rparr>
 \<and> getWeatherInfo (Some 95) = \<lparr>description = js ''Thunderstorm'', icon = icon_thunder_cloud\<rparr>
 \<and> getWeatherInfo (Some 96) = \<lparr>description = js ''Thunderstorm with hail'', icon = icon_thunder_cloud\<rparr>
 \<and> (code \<notin> {0, 1, 2, 3, 45, 48, 51, 53, 55, 61, 63, 65, 80, 81, 82, 95, 96} \<longrightarrow>
      getWeatherInfo (Some code) = \<lparr>description = js ''Unknown'', icon = icon_unknown\<rparr>)
 \<and> getWeatherInfo None = \<lparr>description = js ''Unknown'', icon = icon_unknown\<rparr>"
  by (simp add: weatherMap_def)

theorem getWeatherInfo_catalog_witness:
  "(4::int) \<notin> {0, 1, 2, 3, 45, 48, 51, 53, 55, 61, 63, 65, 80, 81, 82, 95, 96}
   \<and> getWeatherInfo (Some 4) = \<lparr>description = js ''Unknown'', icon = icon_unknown\<rparr>"
  using getWeatherInfo_catalog [of 4] by simp

section \<open>A blank query\<close>

text \<open>
  Claim C7. When the text of the input field is empty after \<open>trim\<close>, \<open>searchWeather\<close>
  returns at once: the summary region shows \<open>Please enter a city name\<close> and nothing else
  of the state changes. In particular the request log, the centre coordinate, the map and
  the forecast region are what they were.
\<close>

theorem searchWeather_empty_query:
  "trim (cityInput s) = [] \<Longrightarrow>
   searchWeather e s =
     Returned (s\<lparr>currentWeather := DivHtml (js ''error'') (js ''Please enter a city name'')\<rparr>)
   \<and> requests (final (searchWeather e s)) = requests s
   \<and> currentLat (final (searchWeather e s)) = currentLat s
   \<and> currentLon (final (searchWeather e s)) = currentLon s"
  by (simp add: searchWeather_def showError_def)

theorem searchWeather_empty_query_witness:
  "trim (cityInput (sample_state\<lparr>cityInput := js ''   ''\<rparr>)) = []
   \<and> requests (final (searchWeather env_ok (sample_state\<lparr>cityInput := js ''   ''\<rparr>))) = []"
  using searchWeather_empty_query [of "sample_state\<lparr>cityInput := js ''   ''\<rparr>" env_ok]
  by (simp add: trim_def js_def is_white_space_def white_space_def sample_state_def)

section \<open>The forecast list\<close>

lemma forecast_loop_cards:
  "\<forall>j. i \<le> j \<and> j \<le> 5 \<longrightarrow> forecastCard dl j = Some (f j) \<Longrightarrow>
   forecast_loop dl i s = Returned (s\<lparr>forecast := forecast s @ map (\<lambda>j. CardNode (f j)) [i..5]\<rparr>)"
proof (induction dl i s rule: forecast_loop.induct)
  case (1 dl i s)
  show ?case
  proof (cases "i \<le> 5")
    case True
    then have card: "forecastCard dl i = Some (f i)"
      using "1.prems" by simp
    have "forecast_loop dl (i + 1) (s\<lparr>forecast := forecast s @ [CardNode (f i)]\<rparr>) =
       Returned (s\<lparr>forecast := forecast s @ [CardNode (f i)]\<rparr>
                  \<lparr>forecast := forecast (s\<lparr>forecast := forecast s @ [CardNode (f i)]\<rparr>)
                       @ map (\<lambda>j. CardNode (f j)) [i + 1..5]\<rparr>)"
      using "1.IH" [OF True card] "1.prems" by simp
    then show ?thesis
      using True card by (subst forecast_loop.simps) (simp add: upto_rec1 [of i 5])
  next
    case False
    then show ?thesis
      by (subst forecast_loop.simps) simp
  qed
qed

lemma upto_1_5: "[1..5] = [1, 2, 3, 4, 5::int]"
  by (simp add: upto_rec1)

lemma forecastCard_complete:
  "daily_complete data \<Longrightarrow> \<exists>c. forecastCard (daily data) j = Some c"
  by (auto simp add: daily_complete_def forecastCard_def split: option.splits)

lemma displayForecast_complete:
  assumes "daily_complete data"
  shows "displayForecast data s =
     Returned (s\<lparr>forecast := map (\<lambda>j. CardNode (the (forecastCard (daily data) j))) [1, 2, 3, 4, 5]\<rparr>)"
proof -
  have "\<forall>j. 1 \<le> j \<and> j \<le> 5 \<longrightarrow>
      forecastCard (daily data) j = Some (the (forecastCard (daily data) j))"
    using forecastCard_complete [OF assms] by (metis option.sel)
  then have "forecast_loop (daily data) 1 (s\<lparr>forecast := []\<rparr>) =
      Returned (s\<lparr>forecast := []\<rparr>\<lparr>forecast := forecast (s\<lparr>forecast := []\<rparr>)
         @ map (\<lambda>j. CardNode (the (forecastCard (daily data) j))) [1..5]\<rparr>)"
    by (rule forecast_loop_cards)
  then show ?thesis
    by (simp add: displayForecast_def upto_1_5)
qed

lemma forecast_loop_outcome:
  "\<exists>fc. forecast_loop dl i s = Returned (s\<lparr>forecast := fc\<rparr>)
      \<or> forecast_loop dl i s = Thrown TypeError (s\<lparr>forecast := fc\<rparr>)"
proof (induction dl i s rule: forecast_loop.induct)
  case (1 dl i s)
  show ?case
  proof (cases "i \<le> 5")
    case False
    then have "forecast_loop dl i s = Returned (s\<lparr>forecast := forecast s\<rparr>)"
      by (subst forecast_loop.simps) simp
    then show ?thesis by blast
  next
    case True
    show ?thesis
    proof (cases "forecastCard dl i")
      case None
      then have "forecast_loop dl i s = Thrown TypeError (s\<lparr>forecast := forecast s\<rparr>)"
        using True by (subst forecast_loop.simps) simp
      then show ?thesis by blast
    next
      case (Some c)
      let ?s = "s\<lparr>forecast := forecast s @ [CardNode c]\<rparr>"
      have unfold: "forecast_loop dl i s = forecast_loop dl (i + 1) ?s"
        using True Some by (subst forecast_loop.simps) simp
      from "1.IH" [OF True Some] obtain fc where
        "forecast_loop dl (i + 1) ?s = Returned (?s\<lparr>forecast := fc\<rparr>)
         \<or> forecast_loop dl (i + 1) ?s = Thrown TypeError (?s\<lparr>forecast := fc\<rparr>)" ..
      then have "forecast_loop dl i s = Returned (s\<lparr>forecast := fc\<rparr>)
         \<or> forecast_loop dl i s = Thrown TypeError (s\<lparr>forecast := fc\<rparr>)"
        unfolding unfold by simp
      then show ?thesis ..
    qed
  qed
qed

lemma forecastCard_in_range:
  assumes "time d = Some ts" and "temperature_2m_max d = Some maxs"
    and "temperature_2m_min d = Some mins" and "daily_weather_code d = Some codes"
    and "wind_speed_10m_max d = Some winds" and "precipitation_sum d = Some precs"
    and "j < length ts" and "j < length maxs" and "j < length mins"
    and "j < length codes" and "j < length winds" and "j < length precs"
  shows "forecastCard (Some d) (int j) =
     Some \<lparr>card_time = Some (ts ! j),
           card_weatherInfo = getWeatherInfo (Some (codes ! j)),
           card_maxTemp = Some (js_round (maxs ! j)),
           card_minTemp = Some (js_round (mins ! j)),
           card_windSpeed = Some (winds ! j),
           card_precipitation = Some (precs ! j)\<rparr>"
  using assms by (simp add: forecastCard_def js_nth_def del: getWeatherInfo.simps)

text \<open>
  Claim C1. When the \<open>daily\<close> block has its six arrays, each with at least six entries,
  \<open>displayForecast\<close> replaces the content of the forecast region by exactly five cards,
  built from the indices 1, 2, 3, 4, 5 in this order; index 0 is not read.
\<close>

theorem displayForecast_five_cards:
  assumes "daily data = Some d"
    and "time d = Some ts" and "temperature_2m_max d = Some maxs"
    and "temperature_2m_min d = Some mins" and "daily_weather_code d = Some codes"
    and "wind_speed_10m_max d = Some winds" and "precipitation_sum d = Some precs"
    and "6 \<le> length ts" and "6 \<le> length maxs" and "6 \<le> length mins"
    and "6 \<le> length codes" and "6 \<le> length winds" and "6 \<le> length precs"
  shows "displayForecast data s =
     Returned (s\<lparr>forecast :=
       map (\<lambda>i. CardNode
              \<lparr>card_time = Some (ts ! i),
               card_weatherInfo = getWeatherInfo (Some (codes ! i)),
               card_maxTemp = Some (js_round (maxs ! i)),
               card_minTemp = Some (js_round (mins ! i)),
               card_windSpeed = Some (winds ! i),
               card_precipitation = Some (precs ! i)\<rparr>) [1, 2, 3, 4, 5]\<rparr>)
   \<and> length (forecast (final (displayForecast data s))) = 5"
proof -
  have complete: "daily_complete data"
    using assms(1-7) by (simp add: daily_complete_def)
  have card: "the (forecastCard (daily data) (int j)) =
      \<lparr>card_time = Some (ts ! j),
       card_weatherInfo = getWeatherInfo (Some (codes ! j)),
       card_maxTemp = Some (js_round (maxs ! j)),
       card_minTemp = Some (js_round (mins ! j)),
       card_windSpeed = Some (winds ! j),
       card_precipitation = Some (precs ! j)\<rparr>" if "j < 6" for j
    using that assms(8-13) unfolding assms(1)
    by (subst forecastCard_in_range [OF assms(2-7)]) simp_all
  have "map (\<lambda>j. CardNode (the (forecastCard (daily data) j))) [1, 2, 3, 4, 5] =
       map (\<lambda>i. CardNode
              \<lparr>card_time = Some (ts ! i),
               card_weatherInfo = getWeatherInfo (Some (codes ! i)),
               card_maxTemp = Some (js_round (maxs ! i)),
               card_minTemp = Some (js_round (mins ! i)),
               card_windSpeed = Some (winds ! i),
               card_precipitation = Some (precs ! i)\<rparr>) [1, 2, 3, 4, 5]"
    using card [of 1] card [of 2] card [of 3] card [of 4] card [of 5]
    by (simp del: getWeatherInfo.simps)
  then show ?thesis
    by (simp only: displayForecast_complete [OF complete] final.simps) simp
qed

theorem displayForecast_five_cards_witness:
  "forecast (final (displayForecast sample_weather sample_state)) =
     [CardNode \<lparr>card_time = Some (js ''2024-05-02''),
                card_weatherInfo = \<lparr>description = js ''Slight rain'', icon = icon_rain_cloud\<rparr>,
                card_maxTemp = Some 18, card_minTemp = Some 9,
                card_windSpeed = Some 20.1, card_precipitation = Some 4.2\<rparr>,
      CardNode \<lparr>card_time = Some (js ''2024-05-03''),
                card_weatherInfo = \<lparr>description = js ''Clear sky'', icon = icon_sun\<rparr>,
                card_maxTemp = Some 20, card_minTemp = Some 10,
                card_windSpeed = Some 8, card_precipitation = Some 0\<rparr>,
      CardNode \<lparr>card_time = Some (js ''2024-05-04''),
                card_weatherInfo = \<lparr>description = js ''Mainly clear'', icon = icon_sun_small_cloud\<rparr>,
                card_maxTemp = Some 21, card_minTemp = Some 11,
                card_windSpeed = Some 9.5, card_precipitation = Some 0\<rparr>,
      CardNode \<lparr>card_time = Some (js ''2024-05-05''),
                card_weatherInfo = \<lparr>description = js ''Partly cloudy'', icon = icon_sun_behind_cloud\<rparr>,
                card_maxTemp = Some 20, card_minTemp = Some 11,
                card_windSpeed = Some 14.2, card_precipitation = Some 0.1\<rparr>,
      CardNode \<lparr>card_time = Some (js ''2024-05-06''),
                card_weatherInfo = \<lparr>description = js ''Thunderstorm'', icon = icon_thunder_cloud\<rparr>,
                card_maxTemp = Some 16, card_minTemp = Some 10,
                card_windSpeed = Some 25, card_precipitation = Some 12.3\<rparr>]"
  using displayForecast_five_cards [of sample_weather "the (daily sample_weather)" 
     "the (time (the (daily sample_weather)))" "the (temperature_2m_max (the (daily sample_weather)))" 
     "the (temperature_2m_min (the (daily sample_weather)))" "the (daily_weather_code (the (daily sample_weather)))" 
     "the (wind_speed_10m_max (the (daily sample_weather)))" "the (precipitation_sum (the (daily sample_weather)))" sample_state]
  by (simp add: sample_weather_def js_round_def weatherMap_def)

section \<open>The overlay sampler\<close>

lemma points_loop_step:
  "i < 50 \<Longrightarrow>
   points_loop e b lat0 lon0 i n pts =
     points_loop e b lat0 lon0 (i + 1) (n + 3) (pts @ [new_point e b lat0 lon0 n])"
  by (subst points_loop.simps) (simp add: Let_def new_point_def)

lemma points_loop_stop: "\<not> i < 50 \<Longrightarrow> points_loop e b lat0 lon0 i n pts = (n, pts)"
  by (subst points_loop.simps) simp

lemma new_point_in_range:
  assumes fl: "rounds_to_nearest (to_double e)"
    and rnd: "\<forall>n. 0 \<le> random e n \<and> random e n < 1"
    and centre: "\<bar>lat0\<bar> \<le> 180" "\<bar>lon0\<bar> \<le> 180"
  shows "sample_in_range b lat0 lon0 (new_point e b lat0 lon0 n)"
proof -
  have r: "0 \<le> random e n" "random e n < 1" "0 \<le> random e (n + 1)" "random e (n + 1) < 1"
    "0 \<le> random e (n + 2)" "random e (n + 2) < 1"
    using rnd by simp_all
  note lat = jitter_near [OF fl r(1,2) centre(1)]
  note lon = jitter_near [OF fl r(3,4) centre(2)]
  note temperature = intensity_temperature [OF fl r(5,6)]
  note wind = intensity_wind [OF fl r(5,6)]
  note precipitation = intensity_precipitation [OF fl r(5,6)]
  show ?thesis
    using lat lon temperature wind precipitation
    by (simp add: sample_in_range_def new_point_def Let_def)
qed

lemma points_loop_count:
  "50 - i = k \<Longrightarrow>
   fst (points_loop e b lat0 lon0 i n pts) = n + 3 * k
   \<and> length (snd (points_loop e b lat0 lon0 i n pts)) = length pts + k"
proof (induction k arbitrary: i n pts)
  case 0
  then have "\<not> i < 50"
    by simp
  then have "points_loop e b lat0 lon0 i n pts = (n, pts)"
    by (rule points_loop_stop)
  then show ?case
    by simp
next
  case (Suc k)
  then have lt: "i < 50"
    by simp
  have "50 - (i + 1) = k"
    using Suc.prems by simp
  then show ?case
    unfolding points_loop_step [OF lt] using Suc.IH by simp
qed

lemma points_loop_in_range:
  assumes fl: "rounds_to_nearest (to_double e)"
    and rnd: "\<forall>n. 0 \<le> random e n \<and> random e n < 1"
    and centre: "\<bar>lat0\<bar> \<le> 180" "\<bar>lon0\<bar> \<le> 180"
  shows "50 - i = k \<Longrightarrow> \<forall>p \<in> set pts. sample_in_range b lat0 lon0 p \<Longrightarrow>
    \<forall>p \<in> set (snd (points_loop e b lat0 lon0 i n pts)). sample_in_range b lat0 lon0 p"
proof (induction k arbitrary: i n pts)
  case 0
  then have "\<not> i < 50"
    by simp
  then have "points_loop e b lat0 lon0 i n pts = (n, pts)"
    by (rule points_loop_stop)
  then show ?case
    using "0.prems"(2) by simp
next
  case (Suc k)
  then have lt: "i < 50"
    by simp
  let ?p = "new_point e b lat0 lon0 n"
  have "sample_in_range b lat0 lon0 ?p"
    using fl rnd centre by (rule new_point_in_range)
  then have "\<forall>p \<in> set (pts @ [?p]). sample_in_range b lat0 lon0 p"
    using Suc.prems(2) by simp
  moreover have "50 - (i + 1) = k"
    using Suc.prems(1) by simp
  ultimately have
    "\<forall>p \<in> set (snd (points_loop e b lat0 lon0 (i + 1) (n + 3) (pts @ [?p]))).
       sample_in_range b lat0 lon0 p"
    by (rule Suc.IH [rotated])
  then show ?case
    unfolding points_loop_step [OF lt] .
qed

lemma points_new_layer: "points (new_layer b pts) = pts"
  by (simp add: new_layer_def)

text \<open>The layer of a regenerated overlay: 50 points, each in range of the centre.\<close>

lemma sampled_layer:
  "length (points (new_layer b (snd (points_loop e b lat0 lon0 0 n [])))) = 50"
  "rounds_to_nearest (to_double e) \<Longrightarrow> \<forall>n. 0 \<le> random e n \<and> random e n < 1 \<Longrightarrow>
   \<bar>lat0\<bar> \<le> 180 \<Longrightarrow> \<bar>lon0\<bar> \<le> 180 \<Longrightarrow>
   \<forall>p \<in> set (points (new_layer b (snd (points_loop e b lat0 lon0 0 n [])))).
     sample_in_range b lat0 lon0 p"
proof -
  have "fst (points_loop e b lat0 lon0 0 n []) = n + 3 * 50
     \<and> length (snd (points_loop e b lat0 lon0 0 n [])) = length ([] :: (real \<times> real \<times> real) list) + 50"
    by (rule points_loop_count) simp
  then show "length (points (new_layer b (snd (points_loop e b lat0 lon0 0 n [])))) = 50"
    by (simp add: points_new_layer)
next
  assume "rounds_to_nearest (to_double e)" and "\<forall>n. 0 \<le> random e n \<and> random e n < 1"
    and "\<bar>lat0\<bar> \<le> 180" and "\<bar>lon0\<bar> \<le> 180"
  then have "\<forall>p \<in> set (snd (points_loop e b lat0 lon0 0 n [])). sample_in_range b lat0 lon0 p"
    by (rule points_loop_in_range) simp_all
  then show "\<forall>p \<in> set (points (new_layer b (snd (points_loop e b lat0 lon0 0 n [])))).
     sample_in_range b lat0 lon0 p"
    by (simp add: points_new_layer)
qed

lemma layers_removed_eq: "\<exists>ml. layers_removed s = s\<lparr>map_layers := ml\<rparr>"
proof -
  have "layers_removed s = s\<lparr>map_layers := map_layers (layers_removed s)\<rparr>"
    by (simp add: layers_removed_def removeLayer_def split: option.splits)
  then show ?thesis ..
qed

lemma updateMapLayers_active:
  assumes "find snd (buttons s) = Some (b, a)"
  shows "\<exists>ml. updateMapLayers e s =
     Returned (s\<lparr>random_calls := fst (points_loop e b (currentLat s) (currentLon s) 0 (random_calls s) []),
                 heatLayer := Some (new_layer b (snd (points_loop e b (currentLat s) (currentLon s) 0 (random_calls s) []))),
                 map_layers := ml @ [new_layer b (snd (points_loop e b (currentLat s) (currentLon s) 0 (random_calls s) []))]\<rparr>)
     \<and> (map_layers s = (case heatLayer s of None \<Rightarrow> [] | Some layer \<Rightarrow> [layer]) \<longrightarrow> ml = [])"
proof -
  obtain ml where ml: "layers_removed s = s\<lparr>map_layers := ml\<rparr>"
    using layers_removed_eq by blast
  have run: "updateMapLayers e s =
     Returned (s\<lparr>random_calls := fst (points_loop e b (currentLat s) (currentLon s) 0 (random_calls s) []),
                 heatLayer := Some (new_layer b (snd (points_loop e b (currentLat s) (currentLon s) 0 (random_calls s) []))),
                 map_layers := ml @ [new_layer b (snd (points_loop e b (currentLat s) (currentLon s) 0 (random_calls s) []))]\<rparr>)"
    unfolding updateMapLayers_def layers_removed_def [symmetric, unfolded Let_def] Let_def ml
    using assms by (simp add: split_beta new_layer_def)
  have "ml = []" if "map_layers s = (case heatLayer s of None \<Rightarrow> [] | Some layer \<Rightarrow> [layer])"
  proof -
    have "map_layers (layers_removed s) = []"
      using that by (simp add: layers_removed_def removeLayer_def split: option.splits)
    then show ?thesis
      by (simp add: ml)
  qed
  then show ?thesis
    using run by blast
qed

lemma updateMapLayers_outcome:
  "\<exists>n hl ml. updateMapLayers e s = Returned (s\<lparr>random_calls := n, heatLayer := hl, map_layers := ml\<rparr>)
      \<or> updateMapLayers e s = Thrown TypeError (s\<lparr>random_calls := n, heatLayer := hl, map_layers := ml\<rparr>)"
proof (cases "find snd (buttons s)")
  case None
  obtain ml where ml: "layers_removed s = s\<lparr>map_layers := ml\<rparr>"
    using layers_removed_eq by blast
  have "updateMapLayers e s = Thrown TypeError (s\<lparr>map_layers := ml\<rparr>)"
    unfolding updateMapLayers_def layers_removed_def [symmetric, unfolded Let_def] Let_def ml
    using None by simp
  then have "updateMapLayers e s =
      Thrown TypeError (s\<lparr>random_calls := random_calls s, heatLayer := heatLayer s, map_layers := ml\<rparr>)"
    by simp
  then show ?thesis
    by blast
next
  case (Some ba)
  then obtain b a where "find snd (buttons s) = Some (b, a)"
    by (cases ba) simp
  from updateMapLayers_active [OF this, of e] show ?thesis
    by blast
qed



lemma sample_active:
  "find snd (buttons sample_state) = Some (glyph_thermometer @ js '' Temperature'', True)"
  by (simp add: sample_state_def sample_buttons_def)



section \<open>The weather fetch\<close>

lemma getWeatherData_fails:
  assumes "weather_fails e lat lon"
  shows "getWeatherData e lat lon cityName c s =
     Returned (s\<lparr>requests := requests s @ [WeatherRequest lat lon], currentWeather := fetch_error\<rparr>)"
  using assms
  by (simp add: getWeatherData_def weather_fails_def showError_def fetch_error_def
      split: option.splits)

lemma getWeatherData_ok:
  assumes "weather e lat lon = Some data" and "current data = Some cur"
    and "daily_complete data"
  shows "getWeatherData e lat lon cityName c s =
     Returned (s\<lparr>requests := requests s @ [WeatherRequest lat lon],
                 currentWeather := SummaryHtml
                   \<lparr>summary_cityName = cityName, summary_country = c,
                    summary_temp = map_option js_round (temperature_2m cur),
                    summary_weatherInfo = getWeatherInfo (weather_code cur),
                    summary_feelsLike = map_option js_round (apparent_temperature cur),
                    summary_humidity = relative_humidity_2m cur,
                    summary_windSpeed = wind_speed_10m cur,
                    summary_windDeg = wind_direction_10m cur,
                    summary_windDirection = getWindDirection (to_double e) (wind_direction_10m cur)\<rparr>,
                 forecast := map (\<lambda>j. CardNode (the (forecastCard (daily data) j))) [1, 2, 3, 4, 5]\<rparr>)"
  using assms
  by (simp add: getWeatherData_def displayCurrentWeather_def displayForecast_complete Let_def
      del: getWeatherInfo.simps getWindDirection.simps)

lemma getWeatherData_outcome:
  "\<exists>cw fc. getWeatherData e lat lon cityName c s =
     Returned (s\<lparr>requests := requests s @ [WeatherRequest lat lon],
                 currentWeather := cw, forecast := fc\<rparr>)"
proof (cases "weather_fails e lat lon")
  case True
  then have "getWeatherData e lat lon cityName c s =
     Returned (s\<lparr>requests := requests s @ [WeatherRequest lat lon],
                 currentWeather := fetch_error, forecast := forecast s\<rparr>)"
    by (simp add: getWeatherData_fails)
  then show ?thesis
    by blast
next
  case False
  then obtain data cur where data: "weather e lat lon = Some data" and cur: "current data = Some cur"
    by (auto simp add: weather_fails_def split: option.splits)
  define s1 where "s1 = s\<lparr>requests := requests s @ [WeatherRequest lat lon]\<rparr>"
  obtain cw where shown: "displayCurrentWeather e data cityName c s1 = Returned (s1\<lparr>currentWeather := cw\<rparr>)"
    using cur by (simp add: displayCurrentWeather_def Let_def)
  obtain fc where
    "forecast_loop (daily data) 1 (s1\<lparr>currentWeather := cw, forecast := []\<rparr>)
       = Returned (s1\<lparr>currentWeather := cw, forecast := []\<rparr>\<lparr>forecast := fc\<rparr>)
     \<or> forecast_loop (daily data) 1 (s1\<lparr>currentWeather := cw, forecast := []\<rparr>)
       = Thrown TypeError (s1\<lparr>currentWeather := cw, forecast := []\<rparr>\<lparr>forecast := fc\<rparr>)"
    using forecast_loop_outcome by blast
  then have "getWeatherData e lat lon cityName c s =
        Returned (s\<lparr>requests := requests s @ [WeatherRequest lat lon],
                 currentWeather := cw, forecast := fc\<rparr>)
     \<or> getWeatherData e lat lon cityName c s =
        Returned (s\<lparr>requests := requests s @ [WeatherRequest lat lon],
                 currentWeather := fetch_error, forecast := fc\<rparr>)"
    using data cur shown
    by (auto simp add: getWeatherData_def displayForecast_def s1_def showError_def fetch_error_def)
  then show ?thesis
    by blast
qed

section \<open>A submitted name lookup\<close>

lemma searchWeather_resolved:
  assumes "trim (cityInput s) = city" and "city \<noteq> []" and "well_formed city"
    and "geocoding e (ByName city) = Some geoData" and "results geoData = Some (r # rs)"
  shows "searchWeather e s =
     try_catch
       (then_do
          (getWeatherData e (latitude r) (longitude r) (name r) (country r) (name_resolved s city r))
          (\<lambda>s4. updateMapLayers e (setView (latitude r, longitude r) 10 s4)))
       (\<lambda>error s'. Returned (s'\<lparr>currentWeather := fetch_error\<rparr>))"
  using assms
  by (simp add: searchWeather_def Let_def name_resolved_def showLoading_def showError_def
      fetch_error_def)

lemma searchWeather_active:
  assumes "trim (cityInput s) = city" and "city \<noteq> []" and "well_formed city"
    and "geocoding e (ByName city) = Some geoData" and "results geoData = Some (r # rs)"
    and "find snd (buttons s) = Some (b, a)"
  shows "\<exists>cw fc ml.
     searchWeather e s =
       Returned (s\<lparr>currentLat := latitude r, currentLon := longitude r,
          heatLayer := Some (new_layer b (snd (points_loop e b (latitude r) (longitude r)
                                                  0 (random_calls s) []))),
          map_center := (latitude r, longitude r), map_zoom := 10,
          map_layers := ml @ [new_layer b (snd (points_loop e b (latitude r) (longitude r)
                                                  0 (random_calls s) []))],
          currentWeather := cw, forecast := fc,
          requests := requests s @ [GeocodingRequest (ByName city),
                                    WeatherRequest (latitude r) (longitude r)],
          random_calls := fst (points_loop e b (latitude r) (longitude r)
                                 0 (random_calls s) [])\<rparr>)
   \<and> getWeatherData e (latitude r) (longitude r) (name r) (country r) (name_resolved s city r) =
       Returned ((name_resolved s city r)\<lparr>
          requests := requests s @ [GeocodingRequest (ByName city),
                                    WeatherRequest (latitude r) (longitude r)],
          currentWeather := cw, forecast := fc\<rparr>)"
proof -
  define s3 where "s3 = name_resolved s city r"
  obtain cw fc where W:
    "getWeatherData e (latitude r) (longitude r) (name r) (country r) s3 =
       Returned (s3\<lparr>requests := requests s3 @ [WeatherRequest (latitude r) (longitude r)],
                   currentWeather := cw, forecast := fc\<rparr>)"
    using getWeatherData_outcome by blast
  define s4 where "s4 = setView (latitude r, longitude r) 10
      (s3\<lparr>requests := requests s3 @ [WeatherRequest (latitude r) (longitude r)],
          currentWeather := cw, forecast := fc\<rparr>)"
  have "find snd (buttons s4) = Some (b, a)"
    using assms(6) by (simp add: s4_def s3_def setView_def name_resolved_def showLoading_def)
  then obtain ml where U: "updateMapLayers e s4 =
     Returned (s4\<lparr>random_calls := fst (points_loop e b (currentLat s4) (currentLon s4) 0 (random_calls s4) []),
                 heatLayer := Some (new_layer b (snd (points_loop e b (currentLat s4) (currentLon s4) 0 (random_calls s4) []))),
                 map_layers := ml @ [new_layer b (snd (points_loop e b (currentLat s4) (currentLon s4) 0 (random_calls s4) []))]\<rparr>)"
    using updateMapLayers_active [of s4 b a e] by blast
  have fields: "currentLat s4 = latitude r" "currentLon s4 = longitude r"
    "random_calls s4 = random_calls s"
    by (simp_all add: s4_def s3_def setView_def name_resolved_def showLoading_def)
  have "searchWeather e s =
      try_catch (updateMapLayers e s4) (\<lambda>error s'. Returned (s'\<lparr>currentWeather := fetch_error\<rparr>))"
    by (simp add: searchWeather_resolved [OF assms(1-5)] s3_def [symmetric] W s4_def)
  then have "searchWeather e s = updateMapLayers e s4"
    by (simp add: U)
  then have "searchWeather e s =
       Returned (s\<lparr>currentLat := latitude r, currentLon := longitude r,
          heatLayer := Some (new_layer b (snd (points_loop e b (latitude r) (longitude r)
                                                  0 (random_calls s) []))),
          map_center := (latitude r, longitude r), map_zoom := 10,
          map_layers := ml @ [new_layer b (snd (points_loop e b (latitude r) (longitude r)
                                                  0 (random_calls s) []))],
          currentWeather := cw, forecast := fc,
          requests := requests s @ [GeocodingRequest (ByName city),
                                    WeatherRequest (latitude r) (longitude r)],
          random_calls := fst (points_loop e b (latitude r) (longitude r)
                                 0 (random_calls s) [])\<rparr>)"
    unfolding U fields
    by (simp add: s4_def s3_def setView_def name_resolved_def showLoading_def)
  moreover have "getWeatherData e (latitude r) (longitude r) (name r) (country r) (name_resolved s city r) =
       Returned ((name_resolved s city r)\<lparr>
          requests := requests s @ [GeocodingRequest (ByName city),
                                    WeatherRequest (latitude r) (longitude r)],
          currentWeather := cw, forecast := fc\<rparr>)"
    using W by (simp add: s3_def name_resolved_def showLoading_def)
  ultimately show ?thesis
    by blast
qed

lemma searchWeather_weather_fails:
  assumes "trim (cityInput s) = city" and "city \<noteq> []" and "well_formed city"
    and "geocoding e (ByName city) = Some geoData" and "results geoData = Some (r # rs)"
    and "weather_fails e (latitude r) (longitude r)"
  shows "\<exists>n hl ml.
     searchWeather e s =
       Returned (s\<lparr>currentLat := latitude r, currentLon := longitude r,
          heatLayer := hl, map_center := (latitude r, longitude r), map_zoom := 10,
          map_layers := ml, currentWeather := fetch_error,
          forecast := [DivNode (js ''loading'') (js ''Loading forecast...'')],
          requests := requests s @ [GeocodingRequest (ByName city),
                                    WeatherRequest (latitude r) (longitude r)],
          random_calls := n\<rparr>)"
proof -
  define s4 where "s4 = setView (latitude r, longitude r) 10
      ((name_resolved s city r)\<lparr>requests := requests (name_resolved s city r)
             @ [WeatherRequest (latitude r) (longitude r)],
          currentWeather := fetch_error\<rparr>)"
  have unfold: "searchWeather e s =
     try_catch (updateMapLayers e s4) (\<lambda>error s'. Returned (s'\<lparr>currentWeather := fetch_error\<rparr>))"
    unfolding searchWeather_resolved [OF assms(1-5)] getWeatherData_fails [OF assms(6)]
    by (simp add: s4_def)
  obtain n hl ml where
    "updateMapLayers e s4 = Returned (s4\<lparr>random_calls := n, heatLayer := hl, map_layers := ml\<rparr>)
     \<or> updateMapLayers e s4 = Thrown TypeError (s4\<lparr>random_calls := n, heatLayer := hl, map_layers := ml\<rparr>)"
    using updateMapLayers_outcome by blast
  then have "searchWeather e s =
       Returned (s\<lparr>currentLat := latitude r, currentLon := longitude r,
          heatLayer := hl, map_center := (latitude r, longitude r), map_zoom := 10,
          map_layers := ml, currentWeather := fetch_error,
          forecast := [DivNode (js ''loading'') (js ''Loading forecast...'')],
          requests := requests s @ [GeocodingRequest (ByName city),
                                    WeatherRequest (latitude r) (longitude r)],
          random_calls := n\<rparr>)"
    unfolding unfold
    by (auto simp add: s4_def setView_def name_resolved_def showLoading_def)
  then show ?thesis
    by blast
qed

lemma searchWeather_geocoding_fails:
  assumes "trim (cityInput s) = city" and "city \<noteq> []"
    and "\<not> well_formed city \<or> geocoding e (ByName city) = None
       \<or> (\<exists>geoData. geocoding e (ByName city) = Some geoData
             \<and> (results geoData = None \<or> results geoData = Some []))"
  shows "\<exists>message rq.
     searchWeather e s =
       Returned (s\<lparr>currentWeather := DivHtml (js ''error'') message,
          forecast := [DivNode (js ''loading'') (js ''Loading forecast...'')],
          requests := rq\<rparr>)"
proof -
  have "searchWeather e s =
       Returned (s\<lparr>currentWeather := DivHtml (js ''error'') (js ''Error fetching weather data. Please try again.''),
          forecast := [DivNode (js ''loading'') (js ''Loading forecast...'')],
          requests := requests s\<rparr>)
     \<or> searchWeather e s =
       Returned (s\<lparr>currentWeather := DivHtml (js ''error'') (js ''Error fetching weather data. Please try again.''),
          forecast := [DivNode (js ''loading'') (js ''Loading forecast...'')],
          requests := requests s @ [GeocodingRequest (ByName city)]\<rparr>)
     \<or> searchWeather e s =
       Returned (s\<lparr>currentWeather := DivHtml (js ''error'') (js ''City not found. Please try another city.''),
          forecast := [DivNode (js ''loading'') (js ''Loading forecast...'')],
          requests := requests s @ [GeocodingRequest (ByName city)]\<rparr>)"
    using assms
    by (auto simp add: searchWeather_def Let_def showLoading_def showError_def)
  then show ?thesis
    by blast
qed


text \<open>
  Claim C2, as the code has it. \<open>showLoading\<close> overwrites both regions when the lookup is
  submitted, and \<open>showError\<close> writes the summary region only. So after a submitted lookup
  that fails at geocoding or at the weather request, the summary region holds the error
  message and the forecast region holds the placeholder \<open>Loading forecast...\<close>: the cards
  shown before the lookup are gone.
\<close>

theorem searchWeather_failure_regions:
  assumes "trim (cityInput s) \<noteq> []" and "lookup_fails e (trim (cityInput s))"
  shows "(\<exists>s'. searchWeather e s = Returned s')
    \<and> (\<exists>message. currentWeather (final (searchWeather e s)) = DivHtml (js ''error'') message)
    \<and> forecast (final (searchWeather e s)) = [DivNode (js ''loading'') (js ''Loading forecast...'')]"
proof -
  define city where "city = trim (cityInput s)"
  have city: "trim (cityInput s) = city" "city \<noteq> []"
    using assms(1) by (simp_all add: city_def)
  consider
    (geocoding) "\<not> well_formed city \<or> geocoding e (ByName city) = None
       \<or> (\<exists>geoData. geocoding e (ByName city) = Some geoData
             \<and> (results geoData = None \<or> results geoData = Some []))"
  | (weather) geoData r rs where "well_formed city" "geocoding e (ByName city) = Some geoData"
      "results geoData = Some (r # rs)" "weather_fails e (latitude r) (longitude r)"
    using assms(2) unfolding city_def [symmetric] lookup_fails_def
    by (auto split: option.splits list.splits)
  then show ?thesis
  proof cases
    case geocoding
    from searchWeather_geocoding_fails [OF city this] obtain message rq where
      "searchWeather e s =
       Returned (s\<lparr>currentWeather := DivHtml (js ''error'') message,
          forecast := [DivNode (js ''loading'') (js ''Loading forecast...'')],
          requests := rq\<rparr>)"
      by blast
    then show ?thesis
      by simp
  next
    case weather
    from searchWeather_weather_fails [OF city weather] obtain n hl ml where
      "searchWeather e s =
       Returned (s\<lparr>currentLat := latitude r, currentLon := longitude r,
          heatLayer := hl, map_center := (latitude r, longitude r), map_zoom := 10,
          map_layers := ml, currentWeather := fetch_error,
          forecast := [DivNode (js ''loading'') (js ''Loading forecast...'')],
          requests := requests s @ [GeocodingRequest (ByName city),
                                    WeatherRequest (latitude r) (longitude r)],
          random_calls := n\<rparr>)"
      by blast
    then show ?thesis
      by (simp add: fetch_error_def)
  qed
qed

lemma trim_Paris: "trim (js ''Paris'') = js ''Paris''"
  by (simp add: trim_def js_def is_white_space_def white_space_def)

lemma well_formed_Paris: "well_formed (js ''Paris'')"
  by (simp add: js_def high_surrogate_def low_surrogate_def)

lemma Paris_not_blank: "js ''Paris'' \<noteq> []"
  by (simp add: js_def)

theorem searchWeather_failure_regions_witness:
  "trim (cityInput sample_state) \<noteq> [] \<and> lookup_fails env_no_match (trim (cityInput sample_state))
   \<and> forecast (final (searchWeather env_no_match sample_state))
       = [DivNode (js ''loading'') (js ''Loading forecast...'')]"
  using searchWeather_failure_regions [of sample_state env_no_match]
  by (simp add: sample_state_def trim_Paris Paris_not_blank well_formed_Paris lookup_fails_def
      env_no_match_def)

text \<open>
  Claim C2 as stated fails: five cards are displayed, the name has no geocoding match,
  and the forecast region no longer holds the cards afterwards.
\<close>

theorem searchWeather_failure_counterexample:
  "forecast (final (searchWeather env_no_match sample_state)) \<noteq> forecast sample_state"
  by (simp add: searchWeather_def Let_def sample_state_def trim_Paris Paris_not_blank
      well_formed_Paris env_no_match_def showLoading_def showError_def)

text \<open>
  Claim C3, as the code has it. \<open>searchWeather\<close> assigns \<open>currentLat\<close> and \<open>currentLon\<close>
  before it calls \<open>getWeatherData\<close>. When the location resolves and the weather request
  fails (or answers without a \<open>current\<close> block), the generic fetch error is shown and
  exactly one weather request has been issued, but the centre coordinate is the resolved
  one, not the previous one.
\<close>

theorem searchWeather_partial_success:
  assumes "trim (cityInput s) = city" and "city \<noteq> []" and "well_formed city"
    and "geocoding e (ByName city) = Some geoData" and "results geoData = Some (r # rs)"
    and "weather_fails e (latitude r) (longitude r)"
  shows "(\<exists>s'. searchWeather e s = Returned s')
    \<and> currentWeather (final (searchWeather e s)) =
         DivHtml (js ''error'') (js ''Error fetching weather data. Please try again.'')
    \<and> requests (final (searchWeather e s)) =
         requests s @ [GeocodingRequest (ByName city), WeatherRequest (latitude r) (longitude r)]
    \<and> currentLat (final (searchWeather e s)) = latitude r
    \<and> currentLon (final (searchWeather e s)) = longitude r"
proof -
  from searchWeather_weather_fails [OF assms] obtain n hl ml where
      "searchWeather e s =
       Returned (s\<lparr>currentLat := latitude r, currentLon := longitude r,
          heatLayer := hl, map_center := (latitude r, longitude r), map_zoom := 10,
          map_layers := ml, currentWeather := fetch_error,
          forecast := [DivNode (js ''loading'') (js ''Loading forecast...'')],
          requests := requests s @ [GeocodingRequest (ByName city),
                                    WeatherRequest (latitude r) (longitude r)],
          random_calls := n\<rparr>)"
    by blast
  then show ?thesis
    by (simp add: fetch_error_def)
qed

lemma sample_lookup:
  "trim (cityInput sample_state) = js ''Paris''"
  "geocoding env_forecast_down (ByName (js ''Paris'')) = Some \<lparr>results = Some [paris]\<rparr>"
  "results \<lparr>results = Some [paris]\<rparr> = Some (paris # [])"
  "weather_fails env_forecast_down (latitude paris) (longitude paris)"
  by (simp_all add: sample_state_def trim_Paris env_forecast_down_def weather_fails_def)

theorem searchWeather_partial_success_witness:
  "weather_fails env_forecast_down (latitude paris) (longitude paris)
   \<and> requests (final (searchWeather env_forecast_down sample_state)) =
        [GeocodingRequest (ByName (js ''Paris'')), WeatherRequest 48.85341 2.3488]
   \<and> currentLat (final (searchWeather env_forecast_down sample_state)) = 48.85341"
  using searchWeather_partial_success [OF sample_lookup(1) Paris_not_blank well_formed_Paris
      sample_lookup(2-4)]
  by (simp add: sample_lookup(4)) (simp add: sample_state_def paris_def)

text \<open>
  Claim C3 as stated fails: Paris resolves, the weather endpoint is unreachable, and the
  centre coordinate has moved from London to Paris.
\<close>

theorem searchWeather_partial_success_counterexample:
  "currentLat (final (searchWeather env_forecast_down sample_state)) \<noteq> currentLat sample_state"
proof -
  from searchWeather_weather_fails [OF sample_lookup(1) Paris_not_blank well_formed_Paris
      sample_lookup(2-4)]
  have "currentLat (final (searchWeather env_forecast_down sample_state)) = latitude paris"
    by auto
  then show ?thesis
    by (simp add: paris_def sample_state_def)
qed




section \<open>A lookup by device position\<close>

lemma getCurrentLocation_resolved:
  assumes "geocoding e (ByCoordinate lat lon) = Some data"
    and "find snd (buttons s) = Some (b, a)"
  shows "\<exists>cw fc ml.
     getCurrentLocation e (Position lat lon) s =
       Returned (s\<lparr>currentLat := lat, currentLon := lon,
          heatLayer := Some (new_layer b (snd (points_loop e b lat lon 0 (random_calls s) []))),
          map_center := (lat, lon), map_zoom := 10,
          map_layers := ml @ [new_layer b (snd (points_loop e b lat lon 0 (random_calls s) []))],
          currentWeather := cw, forecast := fc,
          requests := requests s @ [GeocodingRequest (ByCoordinate lat lon), WeatherRequest lat lon],
          random_calls := fst (points_loop e b lat lon 0 (random_calls s) [])\<rparr>)
   \<and> getWeatherData e lat lon
        (Some (js_or (Option.bind (first_result data) name) (js ''Your Location'')))
        (Some (js_or (Option.bind (first_result data) country) []))
        (position_resolved s lat lon) =
       Returned ((position_resolved s lat lon)\<lparr>
          requests := requests s @ [GeocodingRequest (ByCoordinate lat lon), WeatherRequest lat lon],
          currentWeather := cw, forecast := fc\<rparr>)"
proof -
  define s2 where "s2 = position_resolved s lat lon"
  define cityName where "cityName = js_or (Option.bind (first_result data) name) (js ''Your Location'')"
  define c where "c = js_or (Option.bind (first_result data) country) []"
  obtain cw fc where W:
    "getWeatherData e lat lon (Some cityName) (Some c) s2 =
       Returned (s2\<lparr>requests := requests s2 @ [WeatherRequest lat lon],
                   currentWeather := cw, forecast := fc\<rparr>)"
    using getWeatherData_outcome by blast
  define s3 where "s3 = setView (lat, lon) 10
      (s2\<lparr>requests := requests s2 @ [WeatherRequest lat lon], currentWeather := cw, forecast := fc\<rparr>)"
  have "find snd (buttons s3) = Some (b, a)"
    using assms(2) by (simp add: s3_def s2_def setView_def position_resolved_def showLoading_def)
  then obtain ml where U: "updateMapLayers e s3 =
     Returned (s3\<lparr>random_calls := fst (points_loop e b (currentLat s3) (currentLon s3) 0 (random_calls s3) []),
                 heatLayer := Some (new_layer b (snd (points_loop e b (currentLat s3) (currentLon s3) 0 (random_calls s3) []))),
                 map_layers := ml @ [new_layer b (snd (points_loop e b (currentLat s3) (currentLon s3) 0 (random_calls s3) []))]\<rparr>)"
    using updateMapLayers_active [of s3 b a e] by blast
  have fields: "currentLat s3 = lat" "currentLon s3 = lon" "random_calls s3 = random_calls s"
    by (simp_all add: s3_def s2_def setView_def position_resolved_def showLoading_def)
  have "getCurrentLocation e (Position lat lon) s =
      try_catch (updateMapLayers e s3)
        (\<lambda>error s'. getWeatherData e (currentLat s') (currentLon s')
                    (Some (js ''Your Location'')) (Some []) s')"
    using assms(1) W
    by (simp add: getCurrentLocation_def Let_def cityName_def c_def s3_def s2_def
        position_resolved_def showLoading_def)
  then have "getCurrentLocation e (Position lat lon) s = updateMapLayers e s3"
    by (simp add: U)
  then have "getCurrentLocation e (Position lat lon) s =
       Returned (s\<lparr>currentLat := lat, currentLon := lon,
          heatLayer := Some (new_layer b (snd (points_loop e b lat lon 0 (random_calls s) []))),
          map_center := (lat, lon), map_zoom := 10,
          map_layers := ml @ [new_layer b (snd (points_loop e b lat lon 0 (random_calls s) []))],
          currentWeather := cw, forecast := fc,
          requests := requests s @ [GeocodingRequest (ByCoordinate lat lon), WeatherRequest lat lon],
          random_calls := fst (points_loop e b lat lon 0 (random_calls s) [])\<rparr>)"
    unfolding U fields
    by (simp add: s3_def s2_def setView_def position_resolved_def showLoading_def)
  moreover have "getWeatherData e lat lon (Some cityName) (Some c) (position_resolved s lat lon) =
       Returned ((position_resolved s lat lon)\<lparr>
          requests := requests s @ [GeocodingRequest (ByCoordinate lat lon), WeatherRequest lat lon],
          currentWeather := cw, forecast := fc\<rparr>)"
    using W by (simp add: s2_def position_resolved_def showLoading_def)
  ultimately show ?thesis
    unfolding cityName_def c_def by blast
qed

section \<open>Startup\<close>

lemma find_active_after_set:
  "label \<in> fst ` set bs \<Longrightarrow>
   find snd (map (\<lambda>(text, active). (text, text = label)) bs) = Some (label, True)"
  by (induction bs) auto

lemma initMap_started:
  assumes "glyph_thermometer @ js '' Temperature'' \<in> fst ` set (page_buttons p)"
  shows "initMap e p = Returned (started e p)"
proof -
  let ?label = "glyph_thermometer @ js '' Temperature''"
  define s where "s = setActiveButton ?label
     \<lparr>currentLat = 51.5074, currentLon = - 0.1278, heatLayer = None, windLayer = None,
      map_center = (51.5074, - 0.1278), map_zoom = 10, map_layers = [],
      buttons = page_buttons p, cityInput = page_cityInput p,
      currentWeather = page_currentWeather p, forecast = page_forecast p,
      requests = [], random_calls = 0\<rparr>"
  have active: "find snd (buttons s) = Some (?label, True)"
    using find_active_after_set [OF assms] by (simp add: s_def setActiveButton_def)
  have inv: "map_layers s = (case heatLayer s of None \<Rightarrow> [] | Some layer \<Rightarrow> [layer])"
    by (simp add: s_def setActiveButton_def)
  obtain ml where run: "updateMapLayers e s =
     Returned (s\<lparr>random_calls := fst (points_loop e ?label (currentLat s) (currentLon s) 0 (random_calls s) []),
                 heatLayer := Some (new_layer ?label (snd (points_loop e ?label (currentLat s) (currentLon s) 0 (random_calls s) []))),
                 map_layers := ml @ [new_layer ?label (snd (points_loop e ?label (currentLat s) (currentLon s) 0 (random_calls s) []))]\<rparr>)"
    and "map_layers s = (case heatLayer s of None \<Rightarrow> [] | Some layer \<Rightarrow> [layer]) \<longrightarrow> ml = []"
    using updateMapLayers_active [OF active, of e] by blast
  then have ml: "ml = []"
    using inv by simp
  have fields: "currentLat s = 51.5074" "currentLon s = - 0.1278" "random_calls s = 0"
    by (simp_all add: s_def setActiveButton_def)
  have "initMap e p = updateMapLayers e s"
    by (simp add: initMap_def Let_def showTemperatureMap_def s_def)
  then show ?thesis
    unfolding run ml fields
    by (simp add: s_def setActiveButton_def started_def)
qed

lemma searchWeather_ok:
  assumes "trim (cityInput s) = city" and "city \<noteq> []" and "well_formed city"
    and "geocoding e (ByName city) = Some geoData" and "results geoData = Some (r # rs)"
    and "find snd (buttons s) = Some (b, a)"
    and "weather e (latitude r) (longitude r) = Some data" and "current data = Some cur"
    and "daily_complete data"
  shows "(\<exists>s'. searchWeather e s = Returned s')
   \<and> requests (final (searchWeather e s)) =
        requests s @ [GeocodingRequest (ByName city), WeatherRequest (latitude r) (longitude r)]
   \<and> currentLat (final (searchWeather e s)) = latitude r
   \<and> currentLon (final (searchWeather e s)) = longitude r
   \<and> map_center (final (searchWeather e s)) = (latitude r, longitude r)
   \<and> currentWeather (final (searchWeather e s)) =
        SummaryHtml
          \<lparr>summary_cityName = name r, summary_country = country r,
           summary_temp = map_option js_round (temperature_2m cur),
           summary_weatherInfo = getWeatherInfo (weather_code cur),
           summary_feelsLike = map_option js_round (apparent_temperature cur),
           summary_humidity = relative_humidity_2m cur,
           summary_windSpeed = wind_speed_10m cur,
           summary_windDeg = wind_direction_10m cur,
           summary_windDirection = getWindDirection (to_double e) (wind_direction_10m cur)\<rparr>
   \<and> forecast (final (searchWeather e s)) =
        map (\<lambda>j. CardNode (the (forecastCard (daily data) j))) [1, 2, 3, 4, 5]"
proof -
  let ?W = "getWeatherData e (latitude r) (longitude r) (name r) (country r) (name_resolved s city r)"
  from searchWeather_active [OF assms(1-6)] obtain cw fc ml where
    run: "searchWeather e s =
       Returned (s\<lparr>currentLat := latitude r, currentLon := longitude r,
          heatLayer := Some (new_layer b (snd (points_loop e b (latitude r) (longitude r)
                                                  0 (random_calls s) []))),
          map_center := (latitude r, longitude r), map_zoom := 10,
          map_layers := ml @ [new_layer b (snd (points_loop e b (latitude r) (longitude r)
                                                  0 (random_calls s) []))],
          currentWeather := cw, forecast := fc,
          requests := requests s @ [GeocodingRequest (ByName city),
                                    WeatherRequest (latitude r) (longitude r)],
          random_calls := fst (points_loop e b (latitude r) (longitude r)
                                 0 (random_calls s) [])\<rparr>)"
    and W: "?W =
       Returned ((name_resolved s city r)\<lparr>
          requests := requests s @ [GeocodingRequest (ByName city),
                                    WeatherRequest (latitude r) (longitude r)],
          currentWeather := cw, forecast := fc\<rparr>)"
    by blast
  have "cw = currentWeather (final ?W)" and "fc = forecast (final ?W)"
    by (simp_all add: W)
  then have "cw = SummaryHtml
          \<lparr>summary_cityName = name r, summary_country = country r,
           summary_temp = map_option js_round (temperature_2m cur),
           summary_weatherInfo = getWeatherInfo (weather_code cur),
           summary_feelsLike = map_option js_round (apparent_temperature cur),
           summary_humidity = relative_humidity_2m cur,
           summary_windSpeed = wind_speed_10m cur,
           summary_windDeg = wind_direction_10m cur,
           summary_windDirection = getWindDirection (to_double e) (wind_direction_10m cur)\<rparr>"
    and "fc = map (\<lambda>j. CardNode (the (forecastCard (daily data) j))) [1, 2, 3, 4, 5]"
    by (simp_all add: getWeatherData_ok [OF assms(7-9)])
  then show ?thesis
    by (simp add: run)
qed

text \<open>
  Claim C5, as the code has it. On a page that has the Temperature button, \<open>initMap\<close>
  returns with the centre at \<open>(51.5074, -0.1278)\<close>, the map centred there at zoom 10 and
  a Temperature overlay sampled around it, and \<open>initApp\<close> goes on with \<open>searchWeather\<close>.
  That first submit does not use the default coordinate: it reads the text of the input
  field. With a blank field it shows \<open>Please enter a city name\<close> and issues no request.
  With a name that the geocoder resolves, and a weather answer that has the \<open>current\<close>
  block and the daily arrays, the summary and five forecast cards are shown for the
  first match, which becomes the centre.
\<close>

theorem initApp_startup:
  assumes "glyph_thermometer @ js '' Temperature'' \<in> fst ` set (page_buttons p)"
  shows "(\<exists>s0 layer.
        initMap e p = Returned s0 \<and> initApp e p = searchWeather e s0
      \<and> currentLat s0 = 51.5074 \<and> currentLon s0 = - 0.1278
      \<and> map_center s0 = (51.5074, - 0.1278) \<and> map_zoom s0 = 10
      \<and> heatLayer s0 = Some layer \<and> map_layers s0 = [layer]
      \<and> points layer =
          snd (points_loop e (glyph_thermometer @ js '' Temperature'')
                 51.5074 (- 0.1278) 0 0 [])
      \<and> length (points layer) = 50
      \<and> requests s0 = [] \<and> cityInput s0 = page_cityInput p
      \<and> currentWeather s0 = page_currentWeather p \<and> forecast s0 = page_forecast p)
   \<and> (trim (page_cityInput p) = [] \<longrightarrow>
        requests (final (initApp e p)) = []
      \<and> currentWeather (final (initApp e p)) =
          DivHtml (js ''error'') (js ''Please enter a city name'')
      \<and> forecast (final (initApp e p)) = page_forecast p
      \<and> currentLat (final (initApp e p)) = 51.5074
      \<and> currentLon (final (initApp e p)) = - 0.1278)
   \<and> (trim (page_cityInput p) = city \<and> city \<noteq> [] \<and> well_formed city
        \<and> geocoding e (ByName city) = Some geoData \<and> results geoData = Some (r # rs)
        \<and> weather e (latitude r) (longitude r) = Some data \<and> current data = Some cur
        \<and> daily_complete data \<longrightarrow>
        requests (final (initApp e p)) =
          [GeocodingRequest (ByName city), WeatherRequest (latitude r) (longitude r)]
      \<and> currentLat (final (initApp e p)) = latitude r
      \<and> currentLon (final (initApp e p)) = longitude r
      \<and> map_center (final (initApp e p)) = (latitude r, longitude r)
      \<and> (\<exists>sm. currentWeather (final (initApp e p)) = SummaryHtml sm
             \<and> summary_cityName sm = name r \<and> summary_country sm = country r)
      \<and> length (forecast (final (initApp e p))) = 5)"
proof -
  let ?label = "glyph_thermometer @ js '' Temperature''"
  have init: "initMap e p = Returned (started e p)"
    using assms by (rule initMap_started)
  then have app: "initApp e p = searchWeather e (started e p)"
    by (simp add: initApp_def)
  have first: "\<exists>s0 layer.
        initMap e p = Returned s0 \<and> initApp e p = searchWeather e s0
      \<and> currentLat s0 = 51.5074 \<and> currentLon s0 = - 0.1278
      \<and> map_center s0 = (51.5074, - 0.1278) \<and> map_zoom s0 = 10
      \<and> heatLayer s0 = Some layer \<and> map_layers s0 = [layer]
      \<and> points layer = snd (points_loop e ?label 51.5074 (- 0.1278) 0 0 [])
      \<and> length (points layer) = 50
      \<and> requests s0 = [] \<and> cityInput s0 = page_cityInput p
      \<and> currentWeather s0 = page_currentWeather p \<and> forecast s0 = page_forecast p"
    using init app
    by (intro exI [of _ "started e p"]
        exI [of _ "new_layer ?label (snd (points_loop e ?label 51.5074 (- 0.1278) 0 0 []))"])
      (simp add: started_def points_new_layer sampled_layer(1) [unfolded points_new_layer])
  have blank: "requests (final (initApp e p)) = []
      \<and> currentWeather (final (initApp e p)) =
          DivHtml (js ''error'') (js ''Please enter a city name'')
      \<and> forecast (final (initApp e p)) = page_forecast p
      \<and> currentLat (final (initApp e p)) = 51.5074
      \<and> currentLon (final (initApp e p)) = - 0.1278"
    if "trim (page_cityInput p) = []"
    using that unfolding app
    by (simp add: searchWeather_def showError_def started_def)
  have shown: "requests (final (initApp e p)) =
          [GeocodingRequest (ByName city), WeatherRequest (latitude r) (longitude r)]
      \<and> currentLat (final (initApp e p)) = latitude r
      \<and> currentLon (final (initApp e p)) = longitude r
      \<and> map_center (final (initApp e p)) = (latitude r, longitude r)
      \<and> (\<exists>sm. currentWeather (final (initApp e p)) = SummaryHtml sm
             \<and> summary_cityName sm = name r \<and> summary_country sm = country r)
      \<and> length (forecast (final (initApp e p))) = 5"
    if "trim (page_cityInput p) = city" and "city \<noteq> []" and "well_formed city"
      and "geocoding e (ByName city) = Some geoData" and "results geoData = Some (r # rs)"
      and "weather e (latitude r) (longitude r) = Some data" and "current data = Some cur"
      and "daily_complete data"
  proof -
    have city: "trim (cityInput (started e p)) = city"
      using that(1) by (simp add: started_def)
    have active: "find snd (buttons (started e p)) = Some (?label, True)"
      using find_active_after_set [OF assms] by (simp add: started_def)
    have "requests (started e p) = []"
      by (simp add: started_def)
    then show ?thesis
      unfolding app
      using searchWeather_ok [OF city that(2-5) active that(6-8)] by simp
  qed
  show ?thesis
    using first blank shown by blast
qed

lemma trim_London: "trim (js ''London'') = js ''London''"
  by (simp add: trim_def js_def is_white_space_def white_space_def)

lemma well_formed_London: "well_formed (js ''London'')"
  by (simp add: js_def high_surrogate_def low_surrogate_def)

lemma London_not_blank: "js ''London'' \<noteq> []"
  by (simp add: js_def)

lemma sample_buttons_temperature:
  "glyph_thermometer @ js '' Temperature'' \<in> fst ` set sample_buttons"
  by (simp add: sample_buttons_def)

lemma sample_weather_complete:
  "current sample_weather = Some (the (current sample_weather))"
  "daily_complete sample_weather"
  by (simp_all add: sample_weather_def daily_complete_def)

theorem initApp_startup_witness:
  "glyph_thermometer @ js '' Temperature'' \<in> fst ` set (page_buttons london_page)
   \<and> requests (final (initApp env_london london_page)) =
        [GeocodingRequest (ByName (js ''London'')), WeatherRequest 51.50853 (- 0.12574)]
   \<and> length (forecast (final (initApp env_london london_page))) = 5"
proof -
  have buttons: "glyph_thermometer @ js '' Temperature'' \<in> fst ` set (page_buttons london_page)"
    using sample_buttons_temperature by (simp add: london_page_def)
  have "trim (page_cityInput london_page) = js ''London''"
    and "geocoding env_london (ByName (js ''London'')) = Some \<lparr>results = Some [london]\<rparr>"
    and "results \<lparr>results = Some [london]\<rparr> = Some (london # [])"
    and "weather env_london (latitude london) (longitude london) = Some sample_weather"
    by (simp_all add: london_page_def trim_London env_london_def)
  then have "requests (final (initApp env_london london_page)) =
        [GeocodingRequest (ByName (js ''London'')), WeatherRequest (latitude london) (longitude london)]
     \<and> length (forecast (final (initApp env_london london_page))) = 5"
    using initApp_startup [OF buttons, where e = env_london and city = "js ''London''"
        and geoData = "\<lparr>results = Some [london]\<rparr>" and r = london and rs = "[]"
        and data = sample_weather and cur = "the (current sample_weather)"]
      London_not_blank well_formed_London sample_weather_complete
    by blast
  then show ?thesis
    using buttons by (simp add: london_def)
qed

text \<open>
  Claim C5 as stated fails. With \<open>London\<close> in the input field, no request is made for
  the default coordinate and the centre moves to the geocoder's coordinate for London;
  with an empty field, no request is made at all and the summary region shows an error.
\<close>

theorem initApp_startup_counterexample:
  "WeatherRequest 51.5074 (- 0.1278) \<notin> set (requests (final (initApp env_london london_page)))
   \<and> currentLat (final (initApp env_london london_page)) \<noteq> 51.5074
   \<and> requests (final (initApp env_london blank_page)) = []
   \<and> currentWeather (final (initApp env_london blank_page)) =
        DivHtml (js ''error'') (js ''Please enter a city name'')"
proof -
  let ?label = "glyph_thermometer @ js '' Temperature''"
  have app: "initApp env_london london_page = searchWeather env_london (started env_london london_page)"
    using sample_buttons_temperature
    by (simp add: initApp_def initMap_started london_page_def)
  have "trim (cityInput (started env_london london_page)) = js ''London''"
    and "geocoding env_london (ByName (js ''London'')) = Some \<lparr>results = Some [london]\<rparr>"
    and "results \<lparr>results = Some [london]\<rparr> = Some (london # [])"
    and "find snd (buttons (started env_london london_page)) = Some (?label, True)"
    and "weather env_london (latitude london) (longitude london) = Some sample_weather"
    using find_active_after_set [OF sample_buttons_temperature]
    by (simp_all add: started_def london_page_def trim_London env_london_def)
  from searchWeather_ok [OF this(1) London_not_blank well_formed_London this(2-5)
      sample_weather_complete]
  have "requests (final (initApp env_london london_page)) =
        requests (started env_london london_page)
          @ [GeocodingRequest (ByName (js ''London'')), WeatherRequest (latitude london) (longitude london)]"
    and "currentLat (final (initApp env_london london_page)) = latitude london"
    unfolding app by blast+
  then have london: "WeatherRequest 51.5074 (- 0.1278) \<notin> set (requests (final (initApp env_london london_page)))
   \<and> currentLat (final (initApp env_london london_page)) \<noteq> 51.5074"
    by (simp add: started_def london_def)
  have "initApp env_london blank_page = searchWeather env_london (started env_london blank_page)"
    using sample_buttons_temperature
    by (simp add: initApp_def initMap_started blank_page_def)
  moreover have "trim (cityInput (started env_london blank_page)) = []"
    by (simp add: started_def blank_page_def trim_def)
  ultimately have "requests (final (initApp env_london blank_page)) = []
   \<and> currentWeather (final (initApp env_london blank_page)) =
        DivHtml (js ''error'') (js ''Please enter a city name'')"
    by (simp add: searchWeather_def showError_def started_def)
  then show ?thesis
    using london by blast
qed

section \<open>A device position without a place name\<close>

text \<open>
  Claim C8, as the code has it. When the reverse geocoder answers and its first result
  has no name (or there is no result), and a mode button is active,
  \<open>getCurrentLocation\<close> returns normally, the weather request is issued for the device
  position, and the summary is headed by the sentinel \<open>Your Location\<close>. The country is
  read by a fallback of its own: it is empty when there is no first result or that
  result has no country, and the country of the result otherwise.
\<close>

theorem getCurrentLocation_unnamed:
  assumes "geocoding e (ByCoordinate lat lon) = Some data"
    and "\<forall>r. first_result data = Some r \<longrightarrow> name r = None \<or> name r = Some []"
    and "find snd (buttons s) = Some (b, a)"
  shows "(\<exists>s'. getCurrentLocation e (Position lat lon) s = Returned s')
    \<and> requests (final (getCurrentLocation e (Position lat lon) s)) =
        requests s @ [GeocodingRequest (ByCoordinate lat lon), WeatherRequest lat lon]
    \<and> currentLat (final (getCurrentLocation e (Position lat lon) s)) = lat
    \<and> currentLon (final (getCurrentLocation e (Position lat lon) s)) = lon
    \<and> map_center (final (getCurrentLocation e (Position lat lon) s)) = (lat, lon)
    \<and> (weather e lat lon = Some wdata \<and> current wdata = Some cur \<and> daily_complete wdata \<longrightarrow>
         (\<exists>sm. currentWeather (final (getCurrentLocation e (Position lat lon) s)) = SummaryHtml sm
            \<and> summary_cityName sm = Some (js ''Your Location'')
            \<and> summary_country sm =
                Some (case first_result data of None \<Rightarrow> [] | Some r \<Rightarrow> js_or (country r) [])))"
proof -
  let ?cityName = "js_or (Option.bind (first_result data) name) (js ''Your Location'')"
  let ?country = "js_or (Option.bind (first_result data) country) []"
  let ?W = "getWeatherData e lat lon (Some ?cityName) (Some ?country) (position_resolved s lat lon)"
  have sentinel: "?cityName = js ''Your Location''"
    using assms(2) by (cases "first_result data") auto
  have country: "?country = (case first_result data of None \<Rightarrow> [] | Some r \<Rightarrow> js_or (country r) [])"
    by (cases "first_result data") simp_all
  from getCurrentLocation_resolved [OF assms(1,3)] obtain cw fc ml where
    run: "getCurrentLocation e (Position lat lon) s =
       Returned (s\<lparr>currentLat := lat, currentLon := lon,
          heatLayer := Some (new_layer b (snd (points_loop e b lat lon 0 (random_calls s) []))),
          map_center := (lat, lon), map_zoom := 10,
          map_layers := ml @ [new_layer b (snd (points_loop e b lat lon 0 (random_calls s) []))],
          currentWeather := cw, forecast := fc,
          requests := requests s @ [GeocodingRequest (ByCoordinate lat lon), WeatherRequest lat lon],
          random_calls := fst (points_loop e b lat lon 0 (random_calls s) [])\<rparr>)"
    and W: "?W =
       Returned ((position_resolved s lat lon)\<lparr>
          requests := requests s @ [GeocodingRequest (ByCoordinate lat lon), WeatherRequest lat lon],
          currentWeather := cw, forecast := fc\<rparr>)"
    by blast
  have cw: "cw = currentWeather (final ?W)"
    by (simp add: W)
  have heading: "\<exists>sm. cw = SummaryHtml sm
            \<and> summary_cityName sm = Some (js ''Your Location'')
            \<and> summary_country sm =
                Some (case first_result data of None \<Rightarrow> [] | Some r \<Rightarrow> js_or (country r) [])"
    if "weather e lat lon = Some wdata" and "current wdata = Some cur" and "daily_complete wdata"
    unfolding cw getWeatherData_ok [OF that] sentinel country by simp
  show ?thesis
    using heading by (simp add: run)
qed

lemma sample_position:
  "geocoding env_unnamed (ByCoordinate 48.85341 2.3488) = Some \<lparr>results = None\<rparr>"
  "first_result \<lparr>results = None\<rparr> = None"
  "weather env_unnamed 48.85341 2.3488 = Some sample_weather"
  by (simp_all add: env_unnamed_def first_result_def)

theorem getCurrentLocation_unnamed_witness:
  "first_result \<lparr>results = None\<rparr> = None
   \<and> find snd (buttons sample_state) = Some (glyph_thermometer @ js '' Temperature'', True)
   \<and> requests (final (getCurrentLocation env_unnamed (Position 48.85341 2.3488) sample_state)) =
        [GeocodingRequest (ByCoordinate 48.85341 2.3488), WeatherRequest 48.85341 2.3488]
   \<and> (\<exists>sm. currentWeather (final (getCurrentLocation env_unnamed (Position 48.85341 2.3488)
                                     sample_state)) = SummaryHtml sm
          \<and> summary_cityName sm = Some (js ''Your Location'') \<and> summary_country sm = Some [])"
proof -
  have unnamed: "\<forall>r. first_result \<lparr>results = None\<rparr> = Some r \<longrightarrow> name r = None \<or> name r = Some []"
    by (simp add: sample_position(2))
  have "requests sample_state = []"
    by (simp add: sample_state_def)
  then show ?thesis
    using getCurrentLocation_unnamed [OF sample_position(1) unnamed sample_active,
        where wdata = sample_weather and cur = "the (current sample_weather)"]
      sample_position(2,3) sample_weather_complete sample_active unnamed
    by simp
qed

lemma sample_country_only:
  "geocoding env_country_only (ByCoordinate 48.85341 2.3488) =
     Some \<lparr>results = Some [\<lparr>latitude = 48.85341, longitude = 2.3488,
                             name = None, country = Some (js ''France'')\<rparr>]\<rparr>"
  "weather env_country_only 48.85341 2.3488 = Some sample_weather"
  by (simp_all add: env_country_only_def)

text \<open>
  Claim C8 as stated fails: the first result has a country and no name, and the summary is
  headed \<open>Your Location\<close> with the country \<open>France\<close>, not with an empty country.
\<close>

theorem getCurrentLocation_country_counterexample:
  "currentWeather (final (getCurrentLocation env_country_only (Position 48.85341 2.3488)
                            sample_state)) =
     SummaryHtml
       \<lparr>summary_cityName = Some (js ''Your Location''), summary_country = Some (js ''France''),
        summary_temp = Some 18,
        summary_weatherInfo = \<lparr>description = js ''Overcast'', icon = icon_cloud\<rparr>,
        summary_feelsLike = Some 16, summary_humidity = Some 60,
        summary_windSpeed = Some 11.3, summary_windDeg = Some 225,
        summary_windDirection = Some (js ''SW'')\<rparr>"
proof -
  let ?data = "\<lparr>results = Some [\<lparr>latitude = 48.85341, longitude = 2.3488,
                             name = None, country = Some (js ''France'')\<rparr>]\<rparr>"
  let ?W = "getWeatherData env_country_only 48.85341 2.3488
      (Some (js_or (Option.bind (first_result ?data) name) (js ''Your Location'')))
      (Some (js_or (Option.bind (first_result ?data) country) []))
      (position_resolved sample_state 48.85341 2.3488)"
  from getCurrentLocation_resolved [OF sample_country_only(1) sample_active]
  obtain cw fc ml where
    run: "getCurrentLocation env_country_only (Position 48.85341 2.3488) sample_state =
       Returned (sample_state\<lparr>currentLat := 48.85341, currentLon := 2.3488,
          heatLayer := Some (new_layer (glyph_thermometer @ js '' Temperature'') (snd (points_loop env_country_only (glyph_thermometer @ js '' Temperature'') 48.85341 2.3488 0 (random_calls sample_state) []))),
          map_center := (48.85341, 2.3488), map_zoom := 10,
          map_layers := ml @ [new_layer (glyph_thermometer @ js '' Temperature'') (snd (points_loop env_country_only (glyph_thermometer @ js '' Temperature'') 48.85341 2.3488 0 (random_calls sample_state) []))],
          currentWeather := cw, forecast := fc,
          requests := requests sample_state @ [GeocodingRequest (ByCoordinate 48.85341 2.3488), WeatherRequest 48.85341 2.3488],
          random_calls := fst (points_loop env_country_only (glyph_thermometer @ js '' Temperature'') 48.85341 2.3488 0 (random_calls sample_state) [])\<rparr>)"
    and W: "?W =
       Returned ((position_resolved sample_state 48.85341 2.3488)\<lparr>
          requests := requests sample_state @ [GeocodingRequest (ByCoordinate 48.85341 2.3488), WeatherRequest 48.85341 2.3488],
          currentWeather := cw, forecast := fc\<rparr>)"
    by blast
  have "cw = currentWeather (final ?W)"
    unfolding W by simp
  also have "\<dots> = SummaryHtml
       \<lparr>summary_cityName = Some (js ''Your Location''), summary_country = Some (js ''France''),
        summary_temp = Some 18,
        summary_weatherInfo = \<lparr>description = js ''Overcast'', icon = icon_cloud\<rparr>,
        summary_feelsLike = Some 16, summary_humidity = Some 60,
        summary_windSpeed = Some 11.3, summary_windDeg = Some 225,
        summary_windDirection = Some (js ''SW'')\<rparr>"
    unfolding getWeatherData_ok [OF sample_country_only(2) sample_weather_complete]
    by (simp add: first_result_def js_nth_def sample_weather_def js_round_def weatherMap_def
        js_rem_def directions_def js_def env_country_only_def)
  finally show ?thesis
    unfolding run by simp
qed

end
